theory Spec2Isabelle
  imports
    Complex_Main
    "HOL-Library.Char_ord"
    "HOL-Library.List_Lexorder"
    "HOL-Library.Product_Lexorder"
    "HOL-Library.Multiset"
    "HOL-Library.Sublist"
begin

section \<open>Conventions of the embedding\<close>

text \<open>
  The Python sources under \<^verbatim>\<open>core/\<close> are embedded function by function.
  A Python \<^verbatim>\<open>int\<close> is an \<^typ>\<open>int\<close>, a \<^verbatim>\<open>str\<close> is a \<^typ>\<open>string\<close>, \<^verbatim>\<open>Optional[T]\<close> is an
  \<^typ>\<open>'a option\<close>. A dictionary whose iteration order is observable is an association
  list, a dictionary that is only looked up and updated is a map. Names that Isabelle does
  not accept (a leading underscore) lose the underscore; record fields carry the prefix of
  their class because several classes share field names.

  The statistics of a game row, and the record values made of them, are Python floats
  read with \<^verbatim>\<open>float()\<close> from the payload, which can also give \<^verbatim>\<open>nan\<close> and the
  two infinities: they have the type \<open>pyfloat\<close> below, with the comparisons of the
  language. The cumulative totals of the milestone and leaders computations are reals.
\<close>

subsection \<open>Python built-ins used by the sources\<close>

text \<open>\<^verbatim>\<open>str(i)\<close> for an integer: the decimal numeral, with a minus sign when negative.\<close>

definition digit_char :: "nat \<Rightarrow> char" where
  "digit_char d = ''0123456789'' ! d"

fun digits10 :: "nat \<Rightarrow> string" where
  "digits10 n =
     (if n < 10 then [digit_char n]
      else digits10 (n div 10) @ [digit_char (n mod 10)])"

declare digits10.simps [simp del]

definition str_int :: "int \<Rightarrow> string" where
  "str_int i = (if i < 0 then CHR ''-'' # digits10 (nat (- i)) else digits10 (nat i))"

text \<open>\<^verbatim>\<open>xs[:n]\<close>: a negative bound counts from the end of the list.\<close>

definition py_take :: "int \<Rightarrow> 'a list \<Rightarrow> 'a list" where
  "py_take n xs =
     (if 0 \<le> n then take (nat n) xs else take (length xs - nat (- n)) xs)"

text \<open>\<^verbatim>\<open>s.lower()\<close> on 8-bit characters: the letters A to Z move to a to z.\<close>

definition lower_char :: "char \<Rightarrow> char" where
  "lower_char c =
     (if CHR ''A'' \<le> c \<and> c \<le> CHR ''Z'' then char_of (of_char c + (32::nat)) else c)"

definition lower :: "string \<Rightarrow> string" where
  "lower s = map lower_char s"

text \<open>
  A Python float: a finite value, an infinity or \<^verbatim>\<open>nan\<close>. Every comparison with
  \<^verbatim>\<open>nan\<close> is false.
\<close>

datatype pyfloat = Fin real | PosInf | NegInf | NaN

fun flt_lt :: "pyfloat \<Rightarrow> pyfloat \<Rightarrow> bool" where
  "flt_lt NaN b = False"
| "flt_lt a NaN = False"
| "flt_lt (Fin x) (Fin y) = (x < y)"
| "flt_lt a NegInf = False"
| "flt_lt NegInf b = True"
| "flt_lt PosInf b = False"
| "flt_lt a PosInf = True"

definition flt_le :: "pyfloat \<Rightarrow> pyfloat \<Rightarrow> bool" where
  "flt_le a b \<longleftrightarrow> flt_lt a b \<or> (a = b \<and> a \<noteq> NaN)"

section \<open>Milestones (core/milestones.py)\<close>

definition MILESTONES :: "(string \<times> int list) list" where
  "MILESTONES =
     [(''points'', [100, 250, 500, 750, 1000, 1500, 2000]),
      (''assists'', [50, 100, 250, 500, 750, 1000]),
      (''rebounds'', [50, 100, 250, 500, 750, 1000]),
      (''steals'', [25, 50, 100, 200, 300]),
      (''blocks'', [25, 50, 100, 200, 300]),
      (''threes_made'', [25, 50, 100, 200, 300])]"

record PlayerTotals =
  pt_player_id :: int
  pt_name :: string
  pt_points :: real
  pt_assists :: real
  pt_rebounds :: real
  pt_steals :: real
  pt_blocks :: real
  pt_threes_made :: real

text \<open>
  \<^verbatim>\<open>getattr(player_totals, stat, 0.0)\<close> for the statistic names that
  \<^verbatim>\<open>MILESTONES\<close> ranges over; any other name falls to the default.
\<close>

definition totals_getattr :: "PlayerTotals \<Rightarrow> string \<Rightarrow> real" where
  "totals_getattr p s =
     (if s = ''points'' then pt_points p
      else if s = ''assists'' then pt_assists p
      else if s = ''rebounds'' then pt_rebounds p
      else if s = ''steals'' then pt_steals p
      else if s = ''blocks'' then pt_blocks p
      else if s = ''threes_made'' then pt_threes_made p
      else 0)"

text \<open>
  A notification. The \<^verbatim>\<open>message\<close> field is a rendering of the other four fields
  (\<^verbatim>\<open>_format_milestone_message\<close>) and is left out.
\<close>

record MilestoneNotification =
  mn_player :: string
  mn_stat :: string
  mn_value :: real
  mn_threshold :: int

type_synonym last_totals_t = "string \<rightharpoonup> (string \<rightharpoonup> real)"
type_synonym milestones_sent_t = "string \<rightharpoonup> (string \<rightharpoonup> int list)"

definition get_crossed_thresholds :: "real \<Rightarrow> real \<Rightarrow> int list \<Rightarrow> int list" where
  "get_crossed_thresholds previous_total current_total thresholds =
     filter (\<lambda>threshold. previous_total < of_int threshold \<and> of_int threshold \<le> current_total)
       thresholds"

text \<open>The body of the loop over \<^verbatim>\<open>MILESTONES.keys()\<close> for one statistic.\<close>

definition stat_crossings ::
  "PlayerTotals \<Rightarrow> (string \<rightharpoonup> real) \<Rightarrow> (string \<rightharpoonup> int list) \<Rightarrow> string \<times> int list
     \<Rightarrow> MilestoneNotification list" where
  "stat_crossings player_totals previous_totals player_milestones_sent entry =
     (let stat = fst entry;
          current_value = totals_getattr player_totals stat;
          previous_value = (case previous_totals stat of None \<Rightarrow> 0 | Some v \<Rightarrow> v);
          crossed_thresholds = get_crossed_thresholds previous_value current_value (snd entry);
          sent_thresholds = set (case player_milestones_sent stat of None \<Rightarrow> [] | Some l \<Rightarrow> l);
          new_thresholds = filter (\<lambda>t. t \<notin> sent_thresholds) crossed_thresholds
      in map (\<lambda>threshold.
            \<lparr>mn_player = pt_name player_totals, mn_stat = stat,
             mn_value = current_value, mn_threshold = threshold\<rparr>) new_thresholds)"

text \<open>The body of the loop over \<^verbatim>\<open>current_totals.items()\<close> for one player.\<close>

definition player_crossings ::
  "last_totals_t \<Rightarrow> milestones_sent_t \<Rightarrow> int \<times> PlayerTotals \<Rightarrow> MilestoneNotification list" where
  "player_crossings last_totals milestones_sent item =
     (let player_id_str = str_int (fst item);
          previous_totals =
            (case last_totals player_id_str of None \<Rightarrow> Map.empty | Some m \<Rightarrow> m);
          player_milestones_sent =
            (case milestones_sent player_id_str of None \<Rightarrow> Map.empty | Some m \<Rightarrow> m)
      in concat (map (stat_crossings (snd item) previous_totals player_milestones_sent)
                   MILESTONES))"

definition detect_milestone_crossings ::
  "(int \<times> PlayerTotals) list \<Rightarrow> last_totals_t \<Rightarrow> milestones_sent_t
     \<Rightarrow> MilestoneNotification list" where
  "detect_milestone_crossings current_totals last_totals milestones_sent =
     concat (map (player_crossings last_totals milestones_sent) current_totals)"

definition totals_dict :: "PlayerTotals \<Rightarrow> (string \<rightharpoonup> real)" where
  "totals_dict p =
     [''points'' \<mapsto> pt_points p, ''assists'' \<mapsto> pt_assists p,
      ''rebounds'' \<mapsto> pt_rebounds p, ''steals'' \<mapsto> pt_steals p,
      ''blocks'' \<mapsto> pt_blocks p, ''threes_made'' \<mapsto> pt_threes_made p]"

definition store_totals :: "int \<times> PlayerTotals \<Rightarrow> last_totals_t \<Rightarrow> last_totals_t" where
  "store_totals item m = m(str_int (fst item) \<mapsto> totals_dict (snd item))"

text \<open>
  One step of the loop over the notifications: the key of the outer dictionary is
  \<^verbatim>\<open>str(notification.player)\<close>, the player's name.
\<close>

definition record_sent :: "MilestoneNotification \<Rightarrow> milestones_sent_t \<Rightarrow> milestones_sent_t" where
  "record_sent notification m =
     (let player_id_str = mn_player notification;
          inner = (case m player_id_str of None \<Rightarrow> Map.empty | Some d \<Rightarrow> d);
          sent = (case inner (mn_stat notification) of None \<Rightarrow> [] | Some l \<Rightarrow> l)
      in m(player_id_str \<mapsto> inner(mn_stat notification \<mapsto> sent @ [mn_threshold notification])))"

definition update_milestone_state ::
  "(int \<times> PlayerTotals) list \<Rightarrow> MilestoneNotification list \<Rightarrow> last_totals_t
     \<Rightarrow> milestones_sent_t \<Rightarrow> last_totals_t \<times> milestones_sent_t" where
  "update_milestone_state current_totals notifications last_totals milestones_sent =
     (fold store_totals current_totals last_totals,
      fold record_sent notifications milestones_sent)"


text \<open>
  The crossing condition in the words of the specification: \<open>t\<close> is a threshold of the
  statistic \<open>s\<close>, it lies in the interval from the previous value (exclusive) to the
  current value (inclusive), and it is not in the announced set of this player and
  statistic. Missing previous values count as \<open>0\<close>, missing announced sets as empty.
\<close>

definition new_crossing ::
  "last_totals_t \<Rightarrow> milestones_sent_t \<Rightarrow> int \<times> PlayerTotals \<Rightarrow> string \<Rightarrow> int \<Rightarrow> bool" where
  "new_crossing last_totals milestones_sent item s t =
     (case map_of MILESTONES s of
        None \<Rightarrow> False
      | Some thresholds \<Rightarrow>
          t \<in> set thresholds
          \<and> (case last_totals (str_int (fst item)) of None \<Rightarrow> 0
              | Some m \<Rightarrow> (case m s of None \<Rightarrow> 0 | Some v \<Rightarrow> v)) < of_int t
          \<and> of_int t \<le> totals_getattr (snd item) s
          \<and> t \<notin> set (case milestones_sent (str_int (fst item)) of None \<Rightarrow> []
                       | Some m \<Rightarrow> (case m s of None \<Rightarrow> [] | Some l \<Rightarrow> l)))"

text \<open>Concrete inputs used in the examples below.\<close>

definition totals_of :: "int \<Rightarrow> string \<Rightarrow> real \<Rightarrow> PlayerTotals" where
  "totals_of i nm pts =
     \<lparr>pt_player_id = i, pt_name = nm, pt_points = pts, pt_assists = 0,
      pt_rebounds = 0, pt_steals = 0, pt_blocks = 0, pt_threes_made = 0\<rparr>"

definition ex_current :: "(int \<times> PlayerTotals) list" where
  "ex_current = [(1, totals_of 1 ''Player1'' 125)]"

definition ex_last :: last_totals_t where
  "ex_last = [''1'' \<mapsto> [''points'' \<mapsto> 95]]"

definition ex_current_named7 :: "(int \<times> PlayerTotals) list" where
  "ex_current_named7 = [(1, totals_of 1 ''7'' 125)]"

definition ex_last_stale :: last_totals_t where
  "ex_last_stale = [''1'' \<mapsto> [''points'' \<mapsto> 95], ''7'' \<mapsto> [''points'' \<mapsto> 300]]"

definition ex_sent_stale :: milestones_sent_t where
  "ex_sent_stale = [''7'' \<mapsto> [''points'' \<mapsto> [250]]]"

section \<open>Errors\<close>

text \<open>The exceptions that the embedded functions can raise.\<close>

datatype error =
  TypeError | ValueError | KeyError | IndexError | AttributeError | ValidationError
  | OverflowError | FetchError

section \<open>Leaders (core/leaders.py, core/types.py)\<close>

record PlayerStats =
  ps_id :: int
  ps_name :: string
  ps_points :: real
  ps_assists :: real
  ps_rebounds :: real
  ps_steals :: real
  ps_blocks :: real
  ps_threes_made :: real
  ps_fgm :: real
  ps_fga :: real
  ps_threepm :: real
  ps_threepa :: real
  ps_fg_percent :: real
  ps_threep_percent :: real

record LeaderEntry =
  le_name :: string
  le_value :: real

record LeadersData =
  ld_points :: "LeaderEntry list"
  ld_assists :: "LeaderEntry list"
  ld_rebounds :: "LeaderEntry list"
  ld_steals :: "LeaderEntry list"
  ld_blocks :: "LeaderEntry list"
  ld_threes_made :: "LeaderEntry list"

definition LeadersData_default :: LeadersData where
  "LeadersData_default =
     \<lparr>ld_points = [], ld_assists = [], ld_rebounds = [], ld_steals = [],
      ld_blocks = [], ld_threes_made = []\<rparr>"

text \<open>
  \<^verbatim>\<open>getattr(player, stat, 0.0)\<close> for the names of the numeric fields; the callers pass
  the six tracked statistics only.
\<close>

definition stats_getattr :: "PlayerStats \<Rightarrow> string \<Rightarrow> real" where
  "stats_getattr p s =
     (if s = ''points'' then ps_points p
      else if s = ''assists'' then ps_assists p
      else if s = ''rebounds'' then ps_rebounds p
      else if s = ''steals'' then ps_steals p
      else if s = ''blocks'' then ps_blocks p
      else if s = ''threes_made'' then ps_threes_made p
      else if s = ''fgm'' then ps_fgm p
      else if s = ''fga'' then ps_fga p
      else if s = ''threepm'' then ps_threepm p
      else if s = ''threepa'' then ps_threepa p
      else if s = ''fg_percent'' then ps_fg_percent p
      else if s = ''threep_percent'' then ps_threep_percent p
      else 0)"

text \<open>
  \<^verbatim>\<open>_stable_sort_leaders\<close>: collect the pairs with a positive value, then
  \<^verbatim>\<open>list.sort\<close> (a stable sort) on the key \<^verbatim>\<open>(-x[1], x[0].lower())\<close>.
\<close>

definition stable_sort_leaders :: "PlayerStats list \<Rightarrow> string \<Rightarrow> (string \<times> real) list" where
  "stable_sort_leaders players stat =
     (let stat_values =
            map (\<lambda>player. (ps_name player, stats_getattr player stat))
              (filter (\<lambda>player. 0 < stats_getattr player stat) players)
      in sort_key (\<lambda>x. (- snd x, lower (fst x))) stat_values)"

definition tracked_stats :: "string list" where
  "tracked_stats = [''points'', ''assists'', ''rebounds'', ''steals'', ''blocks'', ''threes_made'']"

text \<open>\<^verbatim>\<open>leaders.__dict__[stat] = value\<close> and the read of the same attribute.\<close>

definition set_leaders :: "string \<Rightarrow> LeaderEntry list \<Rightarrow> LeadersData \<Rightarrow> LeadersData" where
  "set_leaders stat v ld =
     (if stat = ''points'' then ld\<lparr>ld_points := v\<rparr>
      else if stat = ''assists'' then ld\<lparr>ld_assists := v\<rparr>
      else if stat = ''rebounds'' then ld\<lparr>ld_rebounds := v\<rparr>
      else if stat = ''steals'' then ld\<lparr>ld_steals := v\<rparr>
      else if stat = ''blocks'' then ld\<lparr>ld_blocks := v\<rparr>
      else if stat = ''threes_made'' then ld\<lparr>ld_threes_made := v\<rparr>
      else ld)"

definition get_leaders :: "LeadersData \<Rightarrow> string \<Rightarrow> LeaderEntry list" where
  "get_leaders ld stat =
     (if stat = ''points'' then ld_points ld
      else if stat = ''assists'' then ld_assists ld
      else if stat = ''rebounds'' then ld_rebounds ld
      else if stat = ''steals'' then ld_steals ld
      else if stat = ''blocks'' then ld_blocks ld
      else if stat = ''threes_made'' then ld_threes_made ld
      else [])"

text \<open>The body of the loop over the six statistics.\<close>

definition leaders_step :: "PlayerStats list \<Rightarrow> int \<Rightarrow> string \<Rightarrow> LeadersData \<Rightarrow> LeadersData" where
  "leaders_step players n stat leaders =
     (let sorted_players = stable_sort_leaders players stat
      in set_leaders stat
           (map (\<lambda>(name, v). \<lparr>le_name = name, le_value = v\<rparr>) (py_take n sorted_players))
           leaders)"

text \<open>
  \<^verbatim>\<open>top_n_season_leaders\<close>, from the result of \<^verbatim>\<open>fetch_players_for_season\<close>
  on: a failed fetch is caught and gives the default \<^verbatim>\<open>LeadersData()\<close>.
\<close>

definition top_n_season_leaders :: "error + PlayerStats list \<Rightarrow> int \<Rightarrow> LeadersData" where
  "top_n_season_leaders fetched n =
     (case fetched of
        Inl e \<Rightarrow> LeadersData_default
      | Inr players \<Rightarrow> fold (leaders_step players n) tracked_stats LeadersData_default)"

definition stats_of :: "int \<Rightarrow> string \<Rightarrow> real \<Rightarrow> PlayerStats" where
  "stats_of i nm pts =
     \<lparr>ps_id = i, ps_name = nm, ps_points = pts, ps_assists = 0, ps_rebounds = 0,
      ps_steals = 0, ps_blocks = 0, ps_threes_made = 0, ps_fgm = 0, ps_fga = 0,
      ps_threepm = 0, ps_threepa = 0, ps_fg_percent = 0, ps_threep_percent = 0\<rparr>"

definition ex_players :: "PlayerStats list" where
  "ex_players = [stats_of 1 ''A'' 30, stats_of 2 ''B'' 30, stats_of 3 ''C'' 25]"

text \<open>
  The order the specification asks of a leaders sequence: value descending, ties by the
  lower-cased name ascending.
\<close>

definition leader_before :: "LeaderEntry \<Rightarrow> LeaderEntry \<Rightarrow> bool" where
  "leader_before a b \<longleftrightarrow>
     le_value b < le_value a
     \<or> (le_value a = le_value b \<and> lower (le_name a) \<le> lower (le_name b))"

section \<open>Single-game records (core/records.py, core/types.py)\<close>

record SingleGameRecord =
  sg_stat :: string
  sg_value :: pyfloat
  sg_holder :: string
  sg_game :: string
  sg_date :: string
  sg_player_id :: "int option"
  sg_team_id :: "int option"
  sg_opp_team_id :: "int option"
  sg_game_url :: "string option"
  sg_player_url :: "string option"

record RecordCandidate =
  rc_stat :: string
  rc_value :: pyfloat
  rc_holder :: string
  rc_game :: string
  rc_date :: string
  rc_player_id :: "int option"
  rc_team_id :: "int option"
  rc_opp_team_id :: "int option"
  rc_game_url :: "string option"
  rc_player_url :: "string option"

record EventPlayerRow =
  row_name :: string
  row_team :: string
  row_opp :: string
  row_game :: string
  row_date :: string
  row_points :: pyfloat
  row_rebounds :: pyfloat
  row_assists :: pyfloat
  row_steals :: pyfloat
  row_blocks :: pyfloat
  row_threes_made :: pyfloat
  row_fgm :: pyfloat
  row_fga :: pyfloat
  row_threepm :: pyfloat
  row_threepa :: pyfloat
  row_fg_percent :: pyfloat
  row_threep_percent :: pyfloat
  row_player_id :: "int option"
  row_team_id :: "int option"
  row_opp_team_id :: "int option"
  row_game_url :: "string option"

record DoubleDouble =
  dd_player :: string
  dd_game :: string
  dd_date :: string
  dd_categories :: "string list"
  dd_values :: "(string \<times> pyfloat) list"
  dd_player_id :: "int option"
  dd_team_id :: "int option"
  dd_opp_team_id :: "int option"
  dd_game_url :: "string option"
  dd_player_url :: "string option"

record TripleDouble =
  td_player :: string
  td_game :: string
  td_date :: string
  td_categories :: "string list"
  td_values :: "(string \<times> pyfloat) list"
  td_player_id :: "int option"
  td_team_id :: "int option"
  td_opp_team_id :: "int option"
  td_game_url :: "string option"
  td_player_url :: "string option"

record RecordsData =
  rd_points :: "SingleGameRecord option"
  rd_rebounds :: "SingleGameRecord option"
  rd_assists :: "SingleGameRecord option"
  rd_steals :: "SingleGameRecord option"
  rd_blocks :: "SingleGameRecord option"
  rd_threes_made :: "SingleGameRecord option"
  rd_fg_percent :: "SingleGameRecord option"
  rd_threep_percent :: "SingleGameRecord option"
  rd_double_doubles :: "DoubleDouble list"
  rd_triple_doubles :: "TripleDouble list"

definition RecordsData_default :: RecordsData where
  "RecordsData_default =
     \<lparr>rd_points = None, rd_rebounds = None, rd_assists = None, rd_steals = None,
      rd_blocks = None, rd_threes_made = None, rd_fg_percent = None,
      rd_threep_percent = None, rd_double_doubles = [], rd_triple_doubles = []\<rparr>"

text \<open>
  Truth value of an optional integer and of an optional string in a condition
  (\<^verbatim>\<open>if candidate.player_id:\<close>): \<^verbatim>\<open>None\<close>, \<^verbatim>\<open>0\<close> and the empty string are false.
\<close>

definition keep_int :: "int option \<Rightarrow> int option" where
  "keep_int v = (case v of None \<Rightarrow> None | Some i \<Rightarrow> if i \<noteq> 0 then Some i else None)"

definition keep_str :: "string option \<Rightarrow> string option" where
  "keep_str v = (case v of None \<Rightarrow> None | Some u \<Rightarrow> if u \<noteq> [] then Some u else None)"

text \<open>
  The record built in the first branch of \<^verbatim>\<open>_try_update_max\<close>: the optional fields
  start as \<^verbatim>\<open>None\<close> and are copied from the candidate only when they are true.
\<close>

definition new_record :: "RecordCandidate \<Rightarrow> SingleGameRecord" where
  "new_record candidate =
     \<lparr>sg_stat = rc_stat candidate, sg_value = rc_value candidate,
      sg_holder = rc_holder candidate, sg_game = rc_game candidate,
      sg_date = rc_date candidate,
      sg_player_id = keep_int (rc_player_id candidate),
      sg_team_id = keep_int (rc_team_id candidate),
      sg_opp_team_id = keep_int (rc_opp_team_id candidate),
      sg_game_url = keep_str (rc_game_url candidate),
      sg_player_url = keep_str (rc_player_url candidate)\<rparr>"

definition try_update_max ::
  "SingleGameRecord option \<Rightarrow> RecordCandidate \<Rightarrow> SingleGameRecord option" where
  "try_update_max current candidate =
     (case current of
        None \<Rightarrow> Some (new_record candidate)
      | Some cur \<Rightarrow>
          if flt_lt (sg_value cur) (rc_value candidate) then Some (new_record candidate)
          else current)"

text \<open>
  The running maximum of one statistic while a sequence of candidates is folded in, as
  \<^verbatim>\<open>compute_single_game_records\<close> does with
  \<^verbatim>\<open>records.points = _try_update_max(records.points, candidate)\<close> for every row.
\<close>

definition fold_candidates ::
  "SingleGameRecord option \<Rightarrow> RecordCandidate list \<Rightarrow> SingleGameRecord option" where
  "fold_candidates current candidates = foldl try_update_max current candidates"

definition check_double_triple_doubles ::
  "RecordsData \<Rightarrow> EventPlayerRow \<Rightarrow> int option \<Rightarrow> int option \<Rightarrow> int option
     \<Rightarrow> string option \<Rightarrow> RecordsData" where
  "check_double_triple_doubles records row player_id team_id opp_team_id game_url =
     (let stats_to_check =
            [(''points'', row_points row), (''rebounds'', row_rebounds row),
             (''assists'', row_assists row), (''steals'', row_steals row),
             (''blocks'', row_blocks row)];
          vals = filter (\<lambda>sv. flt_le (Fin 10) (snd sv)) stats_to_check;
          double_digit_categories = map fst vals
      in if 3 \<le> length double_digit_categories then
           records\<lparr>rd_triple_doubles := rd_triple_doubles records @
             [\<lparr>td_player = row_name row, td_game = row_game row, td_date = row_date row,
               td_categories = double_digit_categories, td_values = vals,
               td_player_id = player_id, td_team_id = team_id,
               td_opp_team_id = opp_team_id, td_game_url = game_url,
               td_player_url = None\<rparr>]\<rparr>
         else if 2 \<le> length double_digit_categories then
           records\<lparr>rd_double_doubles := rd_double_doubles records @
             [\<lparr>dd_player = row_name row, dd_game = row_game row, dd_date = row_date row,
               dd_categories = double_digit_categories, dd_values = vals,
               dd_player_id = player_id, dd_team_id = team_id,
               dd_opp_team_id = opp_team_id, dd_game_url = game_url,
               dd_player_url = None\<rparr>]\<rparr>
         else records)"

text \<open>How many of the five count statistics of a row are at least ten.\<close>

definition double_digit_count :: "EventPlayerRow \<Rightarrow> nat" where
  "double_digit_count row =
     length (filter (\<lambda>v. flt_le (Fin 10) v)
       [row_points row, row_rebounds row, row_assists row, row_steals row, row_blocks row])"

definition row_of :: "string \<Rightarrow> real \<Rightarrow> real \<Rightarrow> real \<Rightarrow> real \<Rightarrow> real \<Rightarrow> EventPlayerRow" where
  "row_of nm pts reb ast stl blk =
     \<lparr>row_name = nm, row_team = ''Team 1'', row_opp = ''Team 2'',
      row_game = ''Team 1 vs Team 2'', row_date = ''2024-01-15'',
      row_points = Fin pts, row_rebounds = Fin reb, row_assists = Fin ast,
      row_steals = Fin stl, row_blocks = Fin blk, row_threes_made = Fin 0,
      row_fgm = Fin 0, row_fga = Fin 0, row_threepm = Fin 0, row_threepa = Fin 0,
      row_fg_percent = Fin 0, row_threep_percent = Fin 0,
      row_player_id = None, row_team_id = None, row_opp_team_id = None,
      row_game_url = None\<rparr>"

definition candidate_of :: "string \<Rightarrow> pyfloat \<Rightarrow> RecordCandidate" where
  "candidate_of holder v =
     \<lparr>rc_stat = ''points'', rc_value = v, rc_holder = holder, rc_game = ''Team 1 vs Team 2'',
      rc_date = ''2024-01-15'', rc_player_id = None, rc_team_id = None,
      rc_opp_team_id = None, rc_game_url = None, rc_player_url = None\<rparr>"

section \<open>Event payloads (core/sportspress.py)\<close>

text \<open>
  An event is a decoded JSON document. Dictionaries keep their insertion order; a
  dictionary is an association list whose first entry for a key is the entry of that key.
\<close>

datatype json =
  JNull | JBool bool | JInt int | JFloat pyfloat | JStr string
  | JList "json list" | JDict "(string \<times> json) list"

text \<open>
  What the sources use of Python and of the validation library and what this theory does
  not spell out is a parameter of every function below: \<^verbatim>\<open>float(s)\<close> and
  \<^verbatim>\<open>int(s)\<close> for a string (\<open>None\<close> when they raise \<^verbatim>\<open>ValueError\<close>),
  \<^verbatim>\<open>float(i)\<close> for an integer (the nearest float, \<open>None\<close> when it raises
  \<^verbatim>\<open>OverflowError\<close>), \<^verbatim>\<open>s.isdigit()\<close>, \<^verbatim>\<open>str(v)\<close> for a float, a list or a dictionary, and the
  coercion of a value that is neither an integer nor \<^verbatim>\<open>None\<close> to a field of type
  \<^verbatim>\<open>Optional[int]\<close> (\<open>None\<close> when validation fails).
\<close>

record pylib =
  parse_float :: "string \<Rightarrow> pyfloat option"
  int_float :: "int \<Rightarrow> pyfloat option"
  parse_int :: "string \<Rightarrow> int option"
  isdigit :: "string \<Rightarrow> bool"
  repr_json :: "json \<Rightarrow> string"
  coerce_int :: "json \<Rightarrow> int option"

text \<open>Truth value of a JSON value in a condition.\<close>

fun truthy :: "json \<Rightarrow> bool" where
  "truthy JNull = False"
| "truthy (JBool b) = b"
| "truthy (JInt i) = (i \<noteq> 0)"
| "truthy (JFloat r) = (r \<noteq> Fin 0)"
| "truthy (JStr s) = (s \<noteq> [])"
| "truthy (JList l) = (l \<noteq> [])"
| "truthy (JDict d) = (d \<noteq> [])"

text \<open>\<^verbatim>\<open>d.get(k)\<close> and \<^verbatim>\<open>d.get(k, default)\<close>.\<close>

definition dict_get :: "(string \<times> json) list \<Rightarrow> string \<Rightarrow> json" where
  "dict_get d k = (case map_of d k of None \<Rightarrow> JNull | Some v \<Rightarrow> v)"

definition dict_get_default :: "(string \<times> json) list \<Rightarrow> string \<Rightarrow> json \<Rightarrow> json" where
  "dict_get_default d k dflt = (case map_of d k of None \<Rightarrow> dflt | Some v \<Rightarrow> v)"

text \<open>\<^verbatim>\<open>d[k] = v\<close>: an existing key keeps its place, a new key goes to the end.\<close>

fun dict_set :: "string \<Rightarrow> json \<Rightarrow> (string \<times> json) list \<Rightarrow> (string \<times> json) list" where
  "dict_set k v [] = [(k, v)]"
| "dict_set k v (e # d) = (if fst e = k then (k, v) # d else e # dict_set k v d)"

definition py_str :: "pylib \<Rightarrow> json \<Rightarrow> string" where
  "py_str L v =
     (case v of
        JStr s \<Rightarrow> s
      | JInt i \<Rightarrow> str_int i
      | JBool b \<Rightarrow> (if b then ''True'' else ''False'')
      | JNull \<Rightarrow> ''None''
      | _ \<Rightarrow> repr_json L v)"

definition py_float :: "pylib \<Rightarrow> json \<Rightarrow> error + pyfloat" where
  "py_float L v =
     (case v of
        JInt i \<Rightarrow> (case int_float L i of None \<Rightarrow> Inl OverflowError | Some f \<Rightarrow> Inr f)
      | JFloat f \<Rightarrow> Inr f
      | JBool b \<Rightarrow> Inr (Fin (if b then 1 else 0))
      | JStr s \<Rightarrow> (case parse_float L s of None \<Rightarrow> Inl ValueError | Some f \<Rightarrow> Inr f)
      | _ \<Rightarrow> Inl TypeError)"

definition py_int :: "pylib \<Rightarrow> json \<Rightarrow> error + int" where
  "py_int L v =
     (case v of
        JInt i \<Rightarrow> Inr i
      | JBool b \<Rightarrow> Inr (if b then 1 else 0)
      | JFloat f \<Rightarrow>
          (case f of
             Fin r \<Rightarrow> Inr (if 0 \<le> r then \<lfloor>r\<rfloor> else \<lceil>r\<rceil>)
           | NaN \<Rightarrow> Inl ValueError
           | _ \<Rightarrow> Inl OverflowError)
      | JStr s \<Rightarrow> (case parse_int L s of None \<Rightarrow> Inl ValueError | Some i \<Rightarrow> Inr i)
      | _ \<Rightarrow> Inl TypeError)"

text \<open>\<^verbatim>\<open>v[i]\<close> for a non-negative integer index and \<^verbatim>\<open>len(v)\<close>.\<close>

definition py_index :: "json \<Rightarrow> nat \<Rightarrow> error + json" where
  "py_index v i =
     (case v of
        JList l \<Rightarrow> (if i < length l then Inr (l ! i) else Inl IndexError)
      | JStr s \<Rightarrow> (if i < length s then Inr (JStr [s ! i]) else Inl IndexError)
      | JDict d \<Rightarrow> Inl KeyError
      | _ \<Rightarrow> Inl TypeError)"

definition py_len :: "json \<Rightarrow> error + nat" where
  "py_len v =
     (case v of
        JList l \<Rightarrow> Inr (length l)
      | JStr s \<Rightarrow> Inr (length s)
      | JDict d \<Rightarrow> Inr (length d)
      | _ \<Rightarrow> Inl TypeError)"

text \<open>\<^verbatim>\<open>s.strip()\<close> on 8-bit characters.\<close>

definition is_space :: "char \<Rightarrow> bool" where
  "is_space c \<longleftrightarrow> (of_char c :: nat) \<in> {9, 10, 11, 12, 13, 28, 29, 30, 31, 32}"

definition strip :: "string \<Rightarrow> string" where
  "strip s = rev (dropWhile is_space (rev (dropWhile is_space s)))"

text \<open>Validation of a value for a field of type \<^verbatim>\<open>Optional[int]\<close>.\<close>

definition validate_opt_int :: "pylib \<Rightarrow> json \<Rightarrow> error + int option" where
  "validate_opt_int L v =
     (case v of
        JNull \<Rightarrow> Inr None
      | JInt i \<Rightarrow> Inr (Some i)
      | _ \<Rightarrow> (case coerce_int L v of None \<Rightarrow> Inl ValidationError | Some i \<Rightarrow> Inr (Some i)))"

text \<open>
  \<^verbatim>\<open>_safe_extract_float\<close> with the default \<open>0.0\<close>: \<^verbatim>\<open>ValueError\<close> and
  \<^verbatim>\<open>TypeError\<close> are caught, any other exception of \<^verbatim>\<open>float(value)\<close> is not.
\<close>

definition safe_extract_float ::
  "pylib \<Rightarrow> (string \<times> json) list \<Rightarrow> string \<Rightarrow> error + pyfloat" where
  "safe_extract_float L data key =
     (case map_of data key of
        None \<Rightarrow> Inr (Fin 0)
      | Some v \<Rightarrow>
          if v = JNull \<or> v = JStr [] \<or> v = JStr ''null'' then Inr (Fin 0)
          else (case py_float L v of
                  Inl e \<Rightarrow> if e = ValueError \<or> e = TypeError then Inr (Fin 0) else Inl e
                | Inr f \<Rightarrow> Inr f))"

text \<open>Sequencing of two steps of which the first may raise.\<close>

definition then_do :: "error + 'a \<Rightarrow> ('a \<Rightarrow> error + 'b) \<Rightarrow> error + 'b" where
  "then_do m f = (case m of Inl e \<Rightarrow> Inl e | Inr x \<Rightarrow> f x)"

text \<open>\<^verbatim>\<open>a or b\<close> on JSON values.\<close>

definition py_or :: "json \<Rightarrow> json \<Rightarrow> json" where
  "py_or a b = (if truthy a then a else b)"

text \<open>
  \<^verbatim>\<open>_create_player_row\<close>. The statistics are read through \<^verbatim>\<open>EVENT_KEY_MAP\<close>, in
  its order; the two entries of that map that are no field of \<^verbatim>\<open>EventPlayerRow\<close>
  (turnovers, threes_att) are read and then dropped by the model class, and its fields
  \<^verbatim>\<open>threepm\<close> and \<^verbatim>\<open>threepa\<close> keep their default. The three identifiers are
  validated as \<^verbatim>\<open>Optional[int]\<close>. A link that is true is stored as the game URL; the
  declared type of the argument is \<^verbatim>\<open>str\<close>, and a link that is no string is stored
  in its \<^verbatim>\<open>str\<close> form.
\<close>

definition create_player_row ::
  "pylib \<Rightarrow> (string \<times> json) list \<Rightarrow> string \<Rightarrow> string \<Rightarrow> string \<Rightarrow> string \<Rightarrow> json
     \<Rightarrow> error + EventPlayerRow" where
  "create_player_row L row side team_a team_b date game_url =
     (let name = py_str L
            (py_or (dict_get row ''name'')
               (py_or (dict_get row ''player'')
                  (py_or (dict_get row ''title'') (JStr ''Unknown''))));
          home = (prefix ''home'' (lower side) \<or> prefix ''a'' (lower side)
                  \<or> prefix ''team_a'' (lower side));
          team = (if home then team_a else team_b);
          opp = (if home then team_b else team_a);
          game = (if team \<noteq> [] \<and> opp \<noteq> [] then strip (team @ '' vs '' @ opp)
                  else ''Unknown vs Unknown'')
      in then_do (safe_extract_float L row ''pts'') (\<lambda>points.
         then_do (safe_extract_float L row ''rebtwo'') (\<lambda>rebounds.
         then_do (safe_extract_float L row ''ast'') (\<lambda>assists.
         then_do (safe_extract_float L row ''stl'') (\<lambda>steals.
         then_do (safe_extract_float L row ''blk'') (\<lambda>blocks.
         then_do (safe_extract_float L row ''to'') (\<lambda>turnovers.
         then_do (safe_extract_float L row ''fgm'') (\<lambda>fgm.
         then_do (safe_extract_float L row ''fga'') (\<lambda>fga.
         then_do (safe_extract_float L row ''threepm'') (\<lambda>threes_made.
         then_do (safe_extract_float L row ''threepa'') (\<lambda>threes_att.
         then_do (safe_extract_float L row ''fgpercent'') (\<lambda>fg_percent.
         then_do (safe_extract_float L row ''threeppercent'') (\<lambda>threep_percent.
         then_do (validate_opt_int L (dict_get row ''player_id'')) (\<lambda>player_id.
         then_do (validate_opt_int L (dict_get row ''team_id'')) (\<lambda>team_id.
         then_do (validate_opt_int L (dict_get row ''opp_team_id'')) (\<lambda>opp_team_id.
           Inr \<lparr>row_name = name, row_team = team, row_opp = opp, row_game = game,
                row_date = date,
                row_points = points, row_rebounds = rebounds, row_assists = assists,
                row_steals = steals, row_blocks = blocks, row_threes_made = threes_made,
                row_fgm = fgm, row_fga = fga,
                row_threepm = Fin 0, row_threepa = Fin 0,
                row_fg_percent = fg_percent, row_threep_percent = threep_percent,
                row_player_id = player_id, row_team_id = team_id,
                row_opp_team_id = opp_team_id,
                row_game_url = (if truthy game_url then Some (py_str L game_url)
                                else None)\<rparr>))))))))))))))))"

text \<open>What \<^verbatim>\<open>_extract_rows_from_event\<close> computes before its two passes.\<close>

record ctx =
  cx_teams :: json
  cx_team_a :: string
  cx_team_b :: string
  cx_date :: string
  cx_game_url :: json

definition event_ctx :: "pylib \<Rightarrow> (string \<times> json) list \<Rightarrow> ctx" where
  "event_ctx L event =
     (let date =
            (if truthy (dict_get event ''date'') then take 10 (py_str L (dict_get event ''date''))
             else if truthy (dict_get event ''date_gmt'')
               then take 10 (py_str L (dict_get event ''date_gmt''))
             else []);
          game_url = dict_get_default event ''link'' (JStr []);
          teams = dict_get_default event ''teams'' (JList []);
          team_a =
            (case teams of
               JList l \<Rightarrow>
                 if 2 \<le> length l then ''Team '' @ py_str L (l ! 0)
                 else py_str L (dict_get_default event ''team_a'' (JStr ''Team A''))
             | _ \<Rightarrow> py_str L (dict_get_default event ''team_a'' (JStr ''Team A'')));
          team_b =
            (case teams of
               JList l \<Rightarrow>
                 if 2 \<le> length l then ''Team '' @ py_str L (l ! 1)
                 else py_str L (dict_get_default event ''team_b'' (JStr ''Team B''))
             | _ \<Rightarrow> py_str L (dict_get_default event ''team_b'' (JStr ''Team B'')))
      in \<lparr>cx_teams = teams, cx_team_a = team_a, cx_team_b = team_b, cx_date = date,
          cx_game_url = game_url\<rparr>)"

text \<open>
  A loop that appends the rows of each element to the result and stops at the first
  exception.
\<close>

fun collect :: "('a \<Rightarrow> error + 'b list) \<Rightarrow> 'a list \<Rightarrow> error + 'b list" where
  "collect f [] = Inr []"
| "collect f (x # xs) =
     (case f x of
        Inl e \<Rightarrow> Inl e
      | Inr ys \<Rightarrow> (case collect f xs of Inl e \<Rightarrow> Inl e | Inr zs \<Rightarrow> Inr (ys @ zs)))"

definition perf_stat_keys :: "string list" where
  "perf_stat_keys =
     [''pts'', ''rebtwo'', ''ast'', ''stl'', ''blk'', ''fgm'', ''fga'', ''threepm'', ''threepa'']"

text \<open>The body of the loop over the players of one team of the performance map.\<close>

definition perf_player ::
  "pylib \<Rightarrow> ctx \<Rightarrow> string \<Rightarrow> string \<times> json \<Rightarrow> error + EventPlayerRow list" where
  "perf_player L c team_id entry =
     (let player_id = fst entry in
      if player_id = ''0'' then Inr []
      else
        (case snd entry of
           JDict player_stats \<Rightarrow>
             if \<not> list_ex (\<lambda>stat. truthy (dict_get player_stats stat)) perf_stat_keys
             then Inr []
             else
               (case py_int L (JStr player_id) of
                  Inl e \<Rightarrow> Inl e
                | Inr pid \<Rightarrow>
               (case py_int L (JStr team_id) of
                  Inl e \<Rightarrow> Inl e
                | Inr tid \<Rightarrow>
               (let row_data =
                      [(''name'', JStr (''Player '' @ player_id)),
                       (''player_id'', JInt pid),
                       (''team_id'', JInt tid),
                       (''pts'', dict_get_default player_stats ''pts'' (JStr ''0'')),
                       (''rebtwo'', dict_get_default player_stats ''rebtwo'' (JStr ''0'')),
                       (''ast'', dict_get_default player_stats ''ast'' (JStr ''0'')),
                       (''stl'', dict_get_default player_stats ''stl'' (JStr ''0'')),
                       (''blk'', dict_get_default player_stats ''blk'' (JStr ''0'')),
                       (''fgm'', dict_get_default player_stats ''fgm'' (JStr ''0'')),
                       (''fga'', dict_get_default player_stats ''fga'' (JStr ''0'')),
                       (''threepm'', dict_get_default player_stats ''threepm'' (JStr ''0'')),
                       (''threepa'', dict_get_default player_stats ''threepa'' (JStr ''0'')),
                       (''fgpercent'', dict_get_default player_stats ''fgpercent'' (JStr ''0'')),
                       (''threeppercent'',
                          dict_get_default player_stats ''threeppercent'' (JStr ''0''))]
                in case py_index (cx_teams c) 0 of
                     Inl e \<Rightarrow> Inl e
                   | Inr t0 \<Rightarrow>
                  (let home = (team_id = py_str L t0);
                       side = (if home then ''home'' else ''away'')
                   in case (if home then py_index (cx_teams c) 1 else Inr t0) of
                        Inl e \<Rightarrow> Inl e
                      | Inr opp_team_id \<Rightarrow>
                     (case py_int L opp_team_id of
                        Inl e \<Rightarrow> Inl e
                      | Inr oid \<Rightarrow>
                          (case create_player_row L
                                  (dict_set ''opp_team_id'' (JInt oid) row_data) side
                                  (cx_team_a c) (cx_team_b c) (cx_date c) (cx_game_url c) of
                             Inl e \<Rightarrow> Inl e
                           | Inr r \<Rightarrow> Inr [r]))))))
         | _ \<Rightarrow> Inr []))"

text \<open>The body of the loop over the teams of the performance map.\<close>

definition perf_team :: "pylib \<Rightarrow> ctx \<Rightarrow> string \<times> json \<Rightarrow> error + EventPlayerRow list" where
  "perf_team L c entry =
     (if fst entry = ''0'' then Inr []
      else (case snd entry of
              JDict team_performance \<Rightarrow> collect (perf_player L c (fst entry)) team_performance
            | _ \<Rightarrow> Inr []))"

definition perf_pass :: "pylib \<Rightarrow> ctx \<Rightarrow> (string \<times> json) list \<Rightarrow> error + EventPlayerRow list" where
  "perf_pass L c event =
     (case dict_get event ''performance'' of
        JDict performance_data \<Rightarrow>
          if performance_data \<noteq> [] then collect (perf_team L c) performance_data else Inr []
      | _ \<Rightarrow> Inr [])"

text \<open>
  The boxscore fallback writes into the row dictionaries of the event. A loop over a list
  whose body may change the element, append rows or raise: the list is returned as the
  loop leaves it.
\<close>

fun walk :: "('a \<Rightarrow> 'a \<times> (error + 'b list)) \<Rightarrow> 'a list \<Rightarrow> 'a list \<times> (error + 'b list)" where
  "walk f [] = ([], Inr [])"
| "walk f (x # xs) =
     (case f x of
        (x', Inl e) \<Rightarrow> (x' # xs, Inl e)
      | (x', Inr ys) \<Rightarrow>
          (case walk f xs of
             (xs', Inl e) \<Rightarrow> (x' # xs', Inl e)
           | (xs', Inr zs) \<Rightarrow> (x' # xs', Inr (ys @ zs))))"

text \<open>\<^verbatim>\<open>teams[0] if teams else None\<close> and \<^verbatim>\<open>teams[1] if len(teams) > 1 else None\<close>.\<close>

definition first_team :: "json \<Rightarrow> error + json" where
  "first_team teams = (if truthy teams then py_index teams 0 else Inr JNull)"

definition second_team :: "json \<Rightarrow> error + json" where
  "second_team teams =
     (case py_len teams of
        Inl e \<Rightarrow> Inl e
      | Inr n \<Rightarrow> if 1 < n then py_index teams 1 else Inr JNull)"

text \<open>
  The statements of the fallback for one row dictionary, in their order: the player id,
  the team id, the opponent's team id, each stored into the row, then the row object.
  The dictionary is returned as the statements leave it, also when one of them raises.
\<close>

definition annotate_row ::
  "pylib \<Rightarrow> ctx \<Rightarrow> string \<Rightarrow> (string \<times> json) list
     \<Rightarrow> (string \<times> json) list \<times> (error + EventPlayerRow)" where
  "annotate_row L c side row =
     (let player_id =
            py_or (dict_get row ''id'')
              (py_or (dict_get row ''player_id'') (dict_get row ''player''));
          stored =
            (if truthy player_id then
               (if isdigit L (py_str L player_id) then
                  (case py_int L player_id of
                     Inl e \<Rightarrow> Inl e
                   | Inr i \<Rightarrow> Inr (dict_set ''player_id'' (JInt i) row))
                else Inr (dict_set ''player_id'' JNull row))
             else Inr row);
          home = (lower side = ''home'' \<or> lower side = ''a'')
      in case stored of
           Inl e \<Rightarrow> (row, Inl e)
         | Inr row1 \<Rightarrow>
        (case (if home then first_team (cx_teams c) else second_team (cx_teams c)) of
           Inl e \<Rightarrow> (row1, Inl e)
         | Inr team_id \<Rightarrow>
        (let row2 = dict_set ''team_id'' team_id row1
         in case (if home then second_team (cx_teams c) else first_team (cx_teams c)) of
              Inl e \<Rightarrow> (row2, Inl e)
            | Inr opp_team_id \<Rightarrow>
           (let row3 = dict_set ''opp_team_id'' opp_team_id row2
            in (row3, create_player_row L row3 side (cx_team_a c) (cx_team_b c)
                        (cx_date c) (cx_game_url c))))))"

definition box_row ::
  "pylib \<Rightarrow> ctx \<Rightarrow> ((string \<times> json) list \<Rightarrow> string) \<Rightarrow> json
     \<Rightarrow> json \<times> (error + EventPlayerRow list)" where
  "box_row L c side_of r =
     (case r of
        JDict row \<Rightarrow>
          (case annotate_row L c (side_of row) row of
             (row', Inl e) \<Rightarrow> (JDict row', Inl e)
           | (row', Inr pr) \<Rightarrow> (JDict row', Inr [pr]))
      | _ \<Rightarrow> (r, Inr []))"

definition box_side ::
  "pylib \<Rightarrow> ctx \<Rightarrow> string \<times> json \<Rightarrow> (string \<times> json) \<times> (error + EventPlayerRow list)" where
  "box_side L c entry =
     (case snd entry of
        JList player_rows \<Rightarrow>
          (case walk (box_row L c (\<lambda>row. fst entry)) player_rows of
             (player_rows', res) \<Rightarrow> ((fst entry, JList player_rows'), res))
      | _ \<Rightarrow> (entry, Inr []))"

definition list_side :: "pylib \<Rightarrow> ctx \<Rightarrow> (string \<times> json) list \<Rightarrow> string" where
  "list_side L c row =
     (if py_str L (dict_get_default row ''team'' (JStr [])) = cx_team_a c then ''home''
      else ''away'')"

definition process_boxscore ::
  "pylib \<Rightarrow> ctx \<Rightarrow> json \<Rightarrow> json \<times> (error + EventPlayerRow list)" where
  "process_boxscore L c boxscore =
     (case boxscore of
        JDict d \<Rightarrow> (case walk (box_side L c) d of (d', res) \<Rightarrow> (JDict d', res))
      | JList l \<Rightarrow> (case walk (box_row L c (list_side L c)) l of (l', res) \<Rightarrow> (JList l', res))
      | _ \<Rightarrow> (boxscore, Inr []))"

text \<open>\<^verbatim>\<open>event.get(k, {}).get("boxscore")\<close> and the write through the same path.\<close>

definition sub_boxscore :: "(string \<times> json) list \<Rightarrow> string \<Rightarrow> error + json" where
  "sub_boxscore event k =
     (case dict_get_default event k (JDict []) of
        JDict m \<Rightarrow> Inr (dict_get m ''boxscore'')
      | _ \<Rightarrow> Inl AttributeError)"

definition set_sub_boxscore ::
  "string \<Rightarrow> json \<Rightarrow> (string \<times> json) list \<Rightarrow> (string \<times> json) list" where
  "set_sub_boxscore k b event =
     (case dict_get event k of
        JDict m \<Rightarrow> dict_set k (JDict (dict_set ''boxscore'' b m)) event
      | _ \<Rightarrow> event)"

text \<open>
  \<^verbatim>\<open>_extract_rows_from_event\<close>. The first component is the event as the call leaves
  it, the second the returned rows or the exception raised.
\<close>

definition extract_rows_from_event ::
  "pylib \<Rightarrow> (string \<times> json) list
     \<Rightarrow> (string \<times> json) list \<times> (error + EventPlayerRow list)" where
  "extract_rows_from_event L event =
     (let c = event_ctx L event in
      case perf_pass L c event of
        Inl e \<Rightarrow> (event, Inl e)
      | Inr rows \<Rightarrow>
     (case sub_boxscore event ''meta'' of
        Inl e \<Rightarrow> (event, Inl e)
      | Inr b0 \<Rightarrow>
     (let b1 = dict_get event ''boxscore'' in
      case sub_boxscore event ''results'' of
        Inl e \<Rightarrow> (event, Inl e)
      | Inr b2 \<Rightarrow>
          if rows \<noteq> [] then (event, Inr rows)
          else if truthy b0 then
            (case process_boxscore L c b0 of
               (b', res) \<Rightarrow> (set_sub_boxscore ''meta'' b' event, res))
          else if truthy b1 then
            (case process_boxscore L c b1 of
               (b', res) \<Rightarrow> (dict_set ''boxscore'' b' event, res))
          else if truthy b2 then
            (case process_boxscore L c b2 of
               (b', res) \<Rightarrow> (set_sub_boxscore ''results'' b' event, res))
          else (event, Inr []))))"

text \<open>The rows of a result; an exception has none.\<close>

definition rows_of :: "error + EventPlayerRow list \<Rightarrow> EventPlayerRow list" where
  "rows_of res = (case res of Inl e \<Rightarrow> [] | Inr rows \<Rightarrow> rows)"

text \<open>
  What the boxscore fallback may write, in the words of the specification of the frame:
  the entries \<^verbatim>\<open>player_id\<close>, \<^verbatim>\<open>team_id\<close> and \<^verbatim>\<open>opp_team_id\<close> of a row
  dictionary. \<open>strip_box\<close> removes these entries from the row dictionaries of a boxscore
  (the dictionaries in the list of a list-form boxscore and in the lists of the sides of a
  dictionary-form boxscore) and leaves every other part of the value as it is.
\<close>

definition id_keys :: "string list" where
  "id_keys = [''player_id'', ''team_id'', ''opp_team_id'']"

definition strip_row :: "json \<Rightarrow> json" where
  "strip_row r = (case r of JDict d \<Rightarrow> JDict (filter (\<lambda>e. fst e \<notin> set id_keys) d) | _ \<Rightarrow> r)"

definition strip_side :: "string \<times> json \<Rightarrow> string \<times> json" where
  "strip_side e = (fst e, case snd e of JList l \<Rightarrow> JList (map strip_row l) | v \<Rightarrow> v)"

definition strip_box :: "json \<Rightarrow> json" where
  "strip_box b =
     (case b of
        JList l \<Rightarrow> JList (map strip_row l)
      | JDict d \<Rightarrow> JDict (map strip_side d)
      | _ \<Rightarrow> b)"

text \<open>The dictionary with \<open>f\<close> applied to the value of the key \<open>k\<close>, all else as it is.\<close>

fun dict_map_at ::
  "string \<Rightarrow> (json \<Rightarrow> json) \<Rightarrow> (string \<times> json) list \<Rightarrow> (string \<times> json) list" where
  "dict_map_at k f [] = []"
| "dict_map_at k f (e # d) =
     (if fst e = k then (k, f (snd e)) # d else e # dict_map_at k f d)"

text \<open>
  The three places of a boxscore in an event, and the one that the fallback processes: the
  first that is true, when the performance pass has returned no row and reading the three
  candidates has not raised.
\<close>

datatype box_path = InMeta | AtTop | InResults

definition processed_path :: "pylib \<Rightarrow> (string \<times> json) list \<Rightarrow> box_path option" where
  "processed_path L event =
     (case perf_pass L (event_ctx L event) event of
        Inl e \<Rightarrow> None
      | Inr rows \<Rightarrow>
          if rows \<noteq> [] then None
          else
            (case sub_boxscore event ''meta'' of
               Inl e \<Rightarrow> None
             | Inr b0 \<Rightarrow>
                 (case sub_boxscore event ''results'' of
                    Inl e \<Rightarrow> None
                  | Inr b2 \<Rightarrow>
                      if truthy b0 then Some InMeta
                      else if truthy (dict_get event ''boxscore'') then Some AtTop
                      else if truthy b2 then Some InResults
                      else None)))"

definition strip_sub :: "string \<Rightarrow> (string \<times> json) list \<Rightarrow> (string \<times> json) list" where
  "strip_sub k event =
     dict_map_at k
       (\<lambda>v. case v of JDict m \<Rightarrow> JDict (dict_map_at ''boxscore'' strip_box m) | _ \<Rightarrow> v)
       event"

definition strip_path :: "box_path \<Rightarrow> (string \<times> json) list \<Rightarrow> (string \<times> json) list" where
  "strip_path p event =
     (case p of
        InMeta \<Rightarrow> strip_sub ''meta'' event
      | AtTop \<Rightarrow> dict_map_at ''boxscore'' strip_box event
      | InResults \<Rightarrow> strip_sub ''results'' event)"

text \<open>
  An instance of the parameters for the examples: unsigned decimal numerals for
  \<^verbatim>\<open>int(s)\<close>, \<^verbatim>\<open>float(s)\<close> and \<^verbatim>\<open>s.isdigit()\<close>, the exact value for
  \<^verbatim>\<open>float(i)\<close>, no coercion of other values to an integer field. The examples apply \<^verbatim>\<open>str\<close> to strings and integers only.
\<close>

definition is_digit :: "char \<Rightarrow> bool" where
  "is_digit c \<longleftrightarrow> CHR ''0'' \<le> c \<and> c \<le> CHR ''9''"

definition digit_value :: "char \<Rightarrow> int" where
  "digit_value c = int (of_char c) - 48"

definition std_isdigit :: "string \<Rightarrow> bool" where
  "std_isdigit s \<longleftrightarrow> s \<noteq> [] \<and> list_all is_digit s"

definition std_parse_int :: "string \<Rightarrow> int option" where
  "std_parse_int s =
     (if std_isdigit s then Some (foldl (\<lambda>a c. 10 * a + digit_value c) 0 s) else None)"

definition std_lib :: pylib where
  "std_lib =
     \<lparr>parse_float = (\<lambda>s. map_option (\<lambda>i. Fin (of_int i)) (std_parse_int s)),
      int_float = (\<lambda>i. Some (Fin (of_int i))),
      parse_int = std_parse_int,
      isdigit = std_isdigit,
      repr_json = (\<lambda>v. []),
      coerce_int = (\<lambda>v. None)\<rparr>"

definition ex_event_header :: "(string \<times> json) list" where
  "ex_event_header =
     [(''boxscore'',
       JList [JDict [(''id'', JStr ''0''), (''name'', JStr ''Header''), (''pts'', JStr ''5'')]])]"

definition ex_event_box :: "(string \<times> json) list" where
  "ex_event_box =
     [(''teams'', JList [JInt 1, JInt 2]),
      (''boxscore'',
       JDict [(''home'', JList [JDict [(''name'', JStr ''Player1''), (''pts'', JStr ''20'')]])])]"

definition ex_event_perf :: "(string \<times> json) list" where
  "ex_event_perf =
     [(''teams'', JList [JInt 1, JInt 2]),
      (''performance'',
       JDict [(''0'', JDict [(''5'', JDict [(''pts'', JStr ''Points'')])]),
              (''1'', JDict [(''0'', JDict [(''pts'', JStr ''PTS'')]),
                            (''7'', JDict [(''pts'', JStr ''12'')])])])]"

definition ex_row_perf :: EventPlayerRow where
  "ex_row_perf =
     \<lparr>row_name = ''Player 7'', row_team = ''Team 1'', row_opp = ''Team 2'',
      row_game = ''Team 1 vs Team 2'', row_date = [],
      row_points = Fin 12, row_rebounds = Fin 0, row_assists = Fin 0,
      row_steals = Fin 0, row_blocks = Fin 0, row_threes_made = Fin 0,
      row_fgm = Fin 0, row_fga = Fin 0, row_threepm = Fin 0, row_threepa = Fin 0,
      row_fg_percent = Fin 0, row_threep_percent = Fin 0,
      row_player_id = Some 7, row_team_id = Some 1, row_opp_team_id = Some 2,
      row_game_url = None\<rparr>"

section \<open>The scan of all events (core/records.py)\<close>

text \<open>The two settings that \<^verbatim>\<open>compute_single_game_records\<close> reads.\<close>

record settings =
  MIN_FGA_FOR_FG_PERCENT :: real
  MIN_3PA_FOR_3P_PERCENT :: real

text \<open>
  The answer to the request for one page of events: status 200 with the decoded body, any
  other status, or an exception raised by the request or by decoding the body.
\<close>

datatype page_response = PageData json | PageStatus nat | PageError

text \<open>
  The loop over the events of one page: an event with performance or boxscore data is
  appended. An element that is no dictionary has no \<^verbatim>\<open>get\<close>; the exception leaves the
  events appended so far, and the flag tells the caller to stop.
\<close>

fun add_events :: "json list \<Rightarrow> json list \<Rightarrow> json list \<times> bool" where
  "add_events [] events = (events, True)"
| "add_events (event # data) events =
     (case event of
        JDict ev \<Rightarrow>
          add_events data
            (if truthy (py_or (dict_get ev ''performance'') (dict_get ev ''boxscore''))
             then events @ [event] else events)
      | _ \<Rightarrow> (events, False))"

text \<open>
  The \<^verbatim>\<open>while page <= max_pages\<close> loop; the third argument counts the pages that are
  left. Every branch other than a non-empty list with status 200 breaks the loop.
\<close>

fun fetch_pages :: "(nat \<Rightarrow> page_response) \<Rightarrow> nat \<Rightarrow> nat \<Rightarrow> json list \<Rightarrow> json list" where
  "fetch_pages respond page 0 events = events"
| "fetch_pages respond page (Suc left) events =
     (case respond page of
        PageData (JList data) \<Rightarrow>
          if data \<noteq> [] then
            (case add_events data events of
               (events', True) \<Rightarrow> fetch_pages respond (Suc page) left events'
             | (events', False) \<Rightarrow> events')
          else events
      | _ \<Rightarrow> events)"

text \<open>
  Where the events come from: the page loop, or, when the code before the loop raises, the
  call of \<^verbatim>\<open>fetch_events\<close> with its result or its exception.
\<close>

datatype event_source = Pages "nat \<Rightarrow> page_response" | Fallback "error + json list"

definition row_candidate ::
  "string \<Rightarrow> pyfloat \<Rightarrow> EventPlayerRow \<Rightarrow> RecordCandidate" where
  "row_candidate stat v row =
     \<lparr>rc_stat = stat, rc_value = v, rc_holder = row_name row, rc_game = row_game row,
      rc_date = row_date row, rc_player_id = row_player_id row,
      rc_team_id = row_team_id row, rc_opp_team_id = row_opp_team_id row,
      rc_game_url = row_game_url row, rc_player_url = None\<rparr>"

text \<open>The body of the loop over the rows of one event.\<close>

definition process_row :: "settings \<Rightarrow> RecordsData \<Rightarrow> EventPlayerRow \<Rightarrow> RecordsData" where
  "process_row cfg records row =
     (let r1 = records\<lparr>rd_points :=
                 try_update_max (rd_points records) (row_candidate ''points'' (row_points row) row)\<rparr>;
          r2 = r1\<lparr>rd_rebounds :=
                 try_update_max (rd_rebounds r1) (row_candidate ''rebounds'' (row_rebounds row) row)\<rparr>;
          r3 = r2\<lparr>rd_assists :=
                 try_update_max (rd_assists r2) (row_candidate ''assists'' (row_assists row) row)\<rparr>;
          r4 = r3\<lparr>rd_steals :=
                 try_update_max (rd_steals r3) (row_candidate ''steals'' (row_steals row) row)\<rparr>;
          r5 = r4\<lparr>rd_blocks :=
                 try_update_max (rd_blocks r4) (row_candidate ''blocks'' (row_blocks row) row)\<rparr>;
          r6 = r5\<lparr>rd_threes_made :=
                 try_update_max (rd_threes_made r5)
                   (row_candidate ''threes_made'' (row_threes_made row) row)\<rparr>;
          r7 = (if flt_le (Fin (MIN_FGA_FOR_FG_PERCENT cfg)) (row_fga row)
                then r6\<lparr>rd_fg_percent :=
                       try_update_max (rd_fg_percent r6)
                         (row_candidate ''fg_percent'' (row_fg_percent row) row)\<rparr>
                else r6);
          r8 = (if flt_le (Fin (MIN_3PA_FOR_3P_PERCENT cfg)) (row_threepa row)
                then r7\<lparr>rd_threep_percent :=
                       try_update_max (rd_threep_percent r7)
                         (row_candidate ''threep_percent'' (row_threep_percent row) row)\<rparr>
                else r7)
      in check_double_triple_doubles r8 row (row_player_id row) (row_team_id row)
           (row_opp_team_id row) (row_game_url row))"

text \<open>\<^verbatim>\<open>_extract_rows_from_event(event)\<close> for an element of the event list.\<close>

definition extract_event :: "pylib \<Rightarrow> json \<Rightarrow> error + EventPlayerRow list" where
  "extract_event L event =
     (case event of
        JDict ev \<Rightarrow> snd (extract_rows_from_event L ev)
      | _ \<Rightarrow> Inl AttributeError)"

text \<open>
  The body of the loop over the events: an exception of the extraction is caught, and the
  loop continues with the next event.
\<close>

definition scan_event :: "pylib \<Rightarrow> settings \<Rightarrow> RecordsData \<Rightarrow> json \<Rightarrow> RecordsData" where
  "scan_event L cfg records event =
     (case extract_event L event of
        Inl e \<Rightarrow> records
      | Inr player_rows \<Rightarrow> foldl (process_row cfg) records player_rows)"

definition scan_events :: "pylib \<Rightarrow> settings \<Rightarrow> RecordsData \<Rightarrow> json list \<Rightarrow> RecordsData" where
  "scan_events L cfg records events = foldl (scan_event L cfg) records events"

definition compute_single_game_records ::
  "pylib \<Rightarrow> settings \<Rightarrow> event_source \<Rightarrow> RecordsData" where
  "compute_single_game_records L cfg source =
     (case source of
        Pages respond \<Rightarrow>
          scan_events L cfg RecordsData_default (fetch_pages respond 1 50 [])
      | Fallback (Inl e) \<Rightarrow> RecordsData_default
      | Fallback (Inr events) \<Rightarrow> scan_events L cfg RecordsData_default events)"

definition ex_settings :: settings where
  "ex_settings = \<lparr>MIN_FGA_FOR_FG_PERCENT = 10, MIN_3PA_FOR_3P_PERCENT = 6\<rparr>"

definition ex_event_malformed :: json where
  "ex_event_malformed = JDict [(''meta'', JList []), (''boxscore'', JList [JInt 1])]"

text \<open>
  An element of a page that the page loop keeps: an event dictionary with performance or
  boxscore data.
\<close>

definition has_data :: "json \<Rightarrow> bool" where
  "has_data event =
     (case event of
        JDict ev \<Rightarrow> truthy (py_or (dict_get ev ''performance'') (dict_get ev ''boxscore''))
      | _ \<Rightarrow> False)"

definition is_dict :: "json \<Rightarrow> bool" where
  "is_dict v = (case v of JDict d \<Rightarrow> True | _ \<Rightarrow> False)"

text \<open>
  Two answers of the upstream for the examples: a first page with one good event and a
  second page that fails; a first page whose first element is no dictionary.
\<close>

definition ex_respond_second_fails :: "nat \<Rightarrow> page_response" where
  "ex_respond_second_fails page =
     (if page = 1 then PageData (JList [JDict ex_event_perf]) else PageError)"

definition ex_respond_null_first :: "nat \<Rightarrow> page_response" where
  "ex_respond_null_first page =
     (if page = 1 then PageData (JList [JNull, JDict ex_event_perf]) else PageError)"

definition ex_respond_with_malformed :: "nat \<Rightarrow> page_response" where
  "ex_respond_with_malformed page =
     (if page = 1 then PageData (JList [ex_event_malformed, JDict ex_event_perf])
      else PageError)"

section \<open>Properties of milestone detection\<close>

lemma length_filter_concat:
  "length (filter P (concat xss)) = sum_list (map (\<lambda>xs. length (filter P xs)) xss)"
  by (induction xss) simp_all

lemma count_stat_crossings:
  "length (filter (\<lambda>n. mn_player n = nm \<and> mn_stat n = s \<and> mn_threshold n = t)
      (stat_crossings p prev sent e))
   = (if pt_name p = nm \<and> fst e = s
         \<and> (case prev s of None \<Rightarrow> 0 | Some v \<Rightarrow> v) < of_int t
         \<and> of_int t \<le> totals_getattr p s
         \<and> t \<notin> set (case sent s of None \<Rightarrow> [] | Some l \<Rightarrow> l)
      then count_list (snd e) t else 0)"
proof -
  obtain s' ths where e: "e = (s', ths)" by (cases e)
  show ?thesis unfolding e
    apply (simp add: stat_crossings_def get_crossed_thresholds_def Let_def filter_map comp_def)
    apply (induction ths)
     apply auto
    done
qed

lemma sum_over_table:
  "distinct (map fst ms) \<Longrightarrow> \<forall>e\<in>set ms. distinct (snd e) \<Longrightarrow>
   sum_list (map (\<lambda>e. if fst e = s \<and> C then count_list (snd e) t else 0) ms)
   = (case map_of ms s of None \<Rightarrow> 0 | Some ths \<Rightarrow> if C \<and> t \<in> set ths then 1 else (0::nat))"
proof (induction ms)
  case Nil
  then show ?case by simp
next
  case (Cons a ms)
  obtain k v where a: "a = (k, v)" by (cases a)
  have dv: "distinct v" using Cons.prems a by simp
  have cnt: "count_list v t = (if t \<in> set v then 1 else 0)"
    using dv by (induction v) auto
  show ?case
  proof (cases "k = s")
    case True
    then have "map_of ms s = None" using Cons.prems a
      by (simp add: map_of_eq_None_iff)
    then have z: "sum_list (map (\<lambda>e. if fst e = s \<and> C then count_list (snd e) t else 0) ms) = 0"
      using Cons.IH Cons.prems by simp
    show ?thesis using True a z cnt by simp
  next
    case False
    then show ?thesis using Cons a by simp
  qed
qed

lemma MILESTONES_keys: "distinct (map fst MILESTONES)"
  by (simp add: MILESTONES_def)

lemma MILESTONES_distinct: "\<forall>e\<in>set MILESTONES. distinct (snd e)"
  by (simp add: MILESTONES_def)

lemma count_player_crossings:
  "length (filter (\<lambda>n. mn_player n = nm \<and> mn_stat n = s \<and> mn_threshold n = t)
      (player_crossings last_totals milestones_sent item))
   = (if pt_name (snd item) = nm \<and> new_crossing last_totals milestones_sent item s t
      then 1 else 0)"
proof -
  define prev where
    "prev = (case last_totals (str_int (fst item)) of None \<Rightarrow> Map.empty | Some m \<Rightarrow> m)"
  define sent where
    "sent = (case milestones_sent (str_int (fst item)) of None \<Rightarrow> Map.empty | Some m \<Rightarrow> m)"
  define C where
    "C \<longleftrightarrow> pt_name (snd item) = nm
       \<and> (case prev s of None \<Rightarrow> 0 | Some v \<Rightarrow> v) < of_int t
       \<and> of_int t \<le> totals_getattr (snd item) s
       \<and> t \<notin> set (case sent s of None \<Rightarrow> [] | Some l \<Rightarrow> l)"
  have "length (filter (\<lambda>n. mn_player n = nm \<and> mn_stat n = s \<and> mn_threshold n = t)
      (player_crossings last_totals milestones_sent item))
    = sum_list (map (\<lambda>e. if fst e = s \<and> C then count_list (snd e) t else 0) MILESTONES)"
    unfolding player_crossings_def Let_def length_filter_concat map_map comp_def
      count_stat_crossings prev_def [symmetric] sent_def [symmetric]
    by (rule arg_cong [where f = sum_list], rule map_cong) (auto simp: C_def)
  also have "\<dots> = (case map_of MILESTONES s of None \<Rightarrow> 0
                    | Some ths \<Rightarrow> if C \<and> t \<in> set ths then 1 else 0)"
    by (rule sum_over_table [OF MILESTONES_keys MILESTONES_distinct])
  also have "\<dots> = (if pt_name (snd item) = nm
                        \<and> new_crossing last_totals milestones_sent item s t then 1 else 0)"
    by (auto simp: new_crossing_def C_def prev_def sent_def split: option.splits)
  finally show ?thesis .
qed

lemma count_detect:
  "length (filter (\<lambda>n. mn_player n = nm \<and> mn_stat n = s \<and> mn_threshold n = t)
      (detect_milestone_crossings current_totals last_totals milestones_sent))
   = length (filter (\<lambda>item. pt_name (snd item) = nm
                        \<and> new_crossing last_totals milestones_sent item s t) current_totals)"
  unfolding detect_milestone_crossings_def length_filter_concat map_map comp_def
    count_player_crossings
  by (induction current_totals) simp_all

lemma ex_first_run:
  "detect_milestone_crossings ex_current ex_last Map.empty
   = [\<lparr>mn_player = ''Player1'', mn_stat = ''points'', mn_value = 125, mn_threshold = 100\<rparr>]"
  by code_simp

text \<open>
  Claim C3. For one player of the current totals, the notifications of
  \<^verbatim>\<open>detect_milestone_crossings\<close> for a statistic \<open>s\<close> and a threshold \<open>t\<close> are exactly
  one when \<open>t\<close> is a threshold of \<open>s\<close> with previous value \<open>< t \<le>\<close> current value
  that is not in the announced set of this player and statistic, and none otherwise; in
  the whole output the notifications carrying a name, a statistic and a threshold are as
  many as the players of that name for which the threshold is such a new crossing.
  Previous total 95 and current total 125 against the thresholds 100, 250, 500 cross
  exactly 100, and the detection run on these totals with nothing announced returns the
  single notification for 100.
\<close>

theorem detect_emits_one_per_new_crossing:
  "length (filter (\<lambda>n. mn_player n = pt_name (snd item) \<and> mn_stat n = s \<and> mn_threshold n = t)
      (player_crossings last_totals milestones_sent item))
     = (if new_crossing last_totals milestones_sent item s t then 1 else 0)
   \<and> length (filter (\<lambda>n. mn_player n = nm \<and> mn_stat n = s \<and> mn_threshold n = t)
      (detect_milestone_crossings current_totals last_totals milestones_sent))
     = length (filter (\<lambda>item. pt_name (snd item) = nm
                        \<and> new_crossing last_totals milestones_sent item s t) current_totals)
   \<and> get_crossed_thresholds 95 125 [100, 250, 500] = [100]
   \<and> detect_milestone_crossings ex_current ex_last Map.empty
     = [\<lparr>mn_player = ''Player1'', mn_stat = ''points'', mn_value = 125, mn_threshold = 100\<rparr>]"
proof -
  have a: "get_crossed_thresholds 95 125 [100, 250, 500] = [100]"
    by (simp add: get_crossed_thresholds_def)
  show ?thesis
    using count_player_crossings [of "pt_name (snd item)" s t last_totals milestones_sent item]
      count_detect [of nm s t current_totals last_totals milestones_sent] a ex_first_run
    by simp
qed

text \<open>
  Claim C1. The second run does not come back empty: \<^verbatim>\<open>update_milestone_state\<close> files
  the announced threshold under the player's name, \<^verbatim>\<open>detect_milestone_crossings\<close>
  looks it up under \<^verbatim>\<open>str(player_id)\<close>. For player 1 named Player1 with 95 points
  before and 125 now, the second run on the same totals, with the announced map that the
  update returned, announces the threshold 100 again.
\<close>

theorem second_run_repeats_notification:
  "detect_milestone_crossings ex_current ex_last
      (snd (update_milestone_state ex_current
              (detect_milestone_crossings ex_current ex_last Map.empty) ex_last Map.empty))
   = [\<lparr>mn_player = ''Player1'', mn_stat = ''points'', mn_value = 125, mn_threshold = 100\<rparr>]"
  by code_simp

text \<open>
  Claim C10. Player 7 is in both persisted maps and absent from the current totals; the
  only current player has id 1 and the name 7. The pass announces threshold 100 for that
  current player and appends it to the announced thresholds stored under the key 7, which
  were 250 alone before.
\<close>

theorem stale_player_entry_changed:
  "str_int 7 \<notin> set (map (\<lambda>item. str_int (fst item)) ex_current_named7)
   \<and> map_option (\<lambda>m. m ''points'') (ex_sent_stale ''7'') = Some (Some [250])
   \<and> map_option (\<lambda>m. m ''points'')
       (snd (update_milestone_state ex_current_named7
          (detect_milestone_crossings ex_current_named7 ex_last_stale ex_sent_stale)
          ex_last_stale ex_sent_stale) ''7'') = Some (Some [250, 100])"
  by code_simp

section \<open>Properties of the leaders computation\<close>

lemma length_py_take: "0 \<le> n \<Longrightarrow> length (py_take n xs) \<le> nat n"
  by (simp add: py_take_def)

lemma set_py_take: "set (py_take n xs) \<subseteq> set xs"
  by (auto simp: py_take_def dest: in_set_takeD)

lemma sorted_py_take: "sorted (map f xs) \<Longrightarrow> sorted (map f (py_take n xs))"
  by (simp add: py_take_def take_map [symmetric] sorted_wrt_take)

lemma get_set_leaders:
  "stat \<in> set tracked_stats \<Longrightarrow> get_leaders (set_leaders stat v ld) stat = v"
  by (auto simp: tracked_stats_def get_leaders_def set_leaders_def)

lemma get_set_leaders_other:
  "stat \<noteq> stat' \<Longrightarrow> get_leaders (set_leaders stat' v ld) stat = get_leaders ld stat"
  by (auto simp: get_leaders_def set_leaders_def)

lemma get_fold_leaders:
  "distinct stats \<Longrightarrow> set stats \<subseteq> set tracked_stats \<Longrightarrow> stat \<in> set stats \<Longrightarrow>
   get_leaders (fold (leaders_step players n) stats ld) stat
   = map (\<lambda>(name, v). \<lparr>le_name = name, le_value = v\<rparr>)
       (py_take n (stable_sort_leaders players stat))"
proof (induction stats arbitrary: ld rule: rev_induct)
  case Nil
  then show ?case by simp
next
  case (snoc x xs)
  show ?case
  proof (cases "x = stat")
    case True
    then show ?thesis using snoc.prems
      by (simp add: leaders_step_def get_set_leaders Let_def)
  next
    case False
    then have "stat \<in> set xs" using snoc.prems by auto
    then show ?thesis using snoc False
      by (simp add: leaders_step_def get_set_leaders_other Let_def)
  qed
qed

lemma leaders_of_top_n:
  assumes "stat \<in> set tracked_stats"
  shows "get_leaders (top_n_season_leaders (Inr players) n) stat
   = map (\<lambda>(name, v). \<lparr>le_name = name, le_value = v\<rparr>)
       (py_take n (stable_sort_leaders players stat))"
proof -
  have d: "distinct tracked_stats" by (simp add: tracked_stats_def)
  have "get_leaders (fold (leaders_step players n) tracked_stats LeadersData_default) stat
    = map (\<lambda>(name, v). \<lparr>le_name = name, le_value = v\<rparr>)
       (py_take n (stable_sort_leaders players stat))"
    using d subset_refl assms by (rule get_fold_leaders)
  then show ?thesis by (simp add: top_n_season_leaders_def)
qed

lemma stable_sort_positive: "x \<in> set (stable_sort_leaders players stat) \<Longrightarrow> 0 < snd x"
  by (auto simp: stable_sort_leaders_def Let_def)

lemma stable_sort_sorted:
  "sorted (map (\<lambda>x. (- snd x, lower (fst x))) (stable_sort_leaders players stat))"
  by (simp add: stable_sort_leaders_def Let_def)

lemma sorted_keys_leader_before:
  assumes "sorted (map (\<lambda>x. (- snd x, lower (fst x))) xs)"
  shows "sorted_wrt leader_before (map (\<lambda>(name, v). \<lparr>le_name = name, le_value = v\<rparr>) xs)"
proof -
  have "sorted_wrt (\<lambda>a b. (- snd a, lower (fst a)) \<le> (- snd b, lower (fst b))) xs"
    using assms by (simp add: sorted_map)
  then have "sorted_wrt (\<lambda>a b. leader_before
       (case a of (name, v) \<Rightarrow> \<lparr>le_name = name, le_value = v\<rparr>)
       (case b of (name, v) \<Rightarrow> \<lparr>le_name = name, le_value = v\<rparr>)) xs"
    by (rule sorted_wrt_mono_rel [rotated])
       (auto simp: leader_before_def less_eq_prod_def split: prod.splits)
  then show ?thesis by (simp add: sorted_wrt_map)
qed

text \<open>
  Claim C2. For every list of player statistics, every tracked statistic and every
  \<open>n \<ge> 0\<close>, the leaders sequence of \<^verbatim>\<open>top_n_season_leaders\<close> has at most \<open>n\<close>
  entries, every entry has a value above zero, and the sequence is ordered by value
  descending with ties by lower-cased name ascending. The rows A:30, B:30, C:25 give
  (A,30), (B,30), (C,25) for points and \<open>n = 3\<close>.
\<close>

theorem top_n_leaders_bounded_positive_sorted:
  assumes "stat \<in> set tracked_stats" and "0 \<le> n"
  shows "length (get_leaders (top_n_season_leaders (Inr players) n) stat) \<le> nat n
    \<and> (\<forall>e \<in> set (get_leaders (top_n_season_leaders (Inr players) n) stat). 0 < le_value e)
    \<and> sorted_wrt leader_before (get_leaders (top_n_season_leaders (Inr players) n) stat)
    \<and> get_leaders (top_n_season_leaders (Inr ex_players) 3) ''points''
        = [\<lparr>le_name = ''A'', le_value = 30\<rparr>, \<lparr>le_name = ''B'', le_value = 30\<rparr>,
           \<lparr>le_name = ''C'', le_value = 25\<rparr>]"
proof -
  let ?xs = "py_take n (stable_sort_leaders players stat)"
  have eq: "get_leaders (top_n_season_leaders (Inr players) n) stat
      = map (\<lambda>(name, v). \<lparr>le_name = name, le_value = v\<rparr>) ?xs"
    using assms(1) by (rule leaders_of_top_n)
  have len: "length ?xs \<le> nat n" using assms(2) by (rule length_py_take)
  have pos: "\<forall>x \<in> set ?xs. 0 < snd x"
    using set_py_take [of n "stable_sort_leaders players stat"]
      stable_sort_positive [of _ players stat] by auto
  have srt: "sorted (map (\<lambda>x. (- snd x, lower (fst x))) ?xs)"
    by (rule sorted_py_take) (rule stable_sort_sorted)
  have ex: "get_leaders (top_n_season_leaders (Inr ex_players) 3) ''points''
        = [\<lparr>le_name = ''A'', le_value = 30\<rparr>, \<lparr>le_name = ''B'', le_value = 30\<rparr>,
           \<lparr>le_name = ''C'', le_value = 25\<rparr>]"
    by code_simp
  show ?thesis
    unfolding eq using len pos sorted_keys_leader_before [OF srt] ex
    by (auto split: prod.splits)
qed

theorem top_n_leaders_witness:
  "''points'' \<in> set tracked_stats \<and> (0::int) \<le> 2
   \<and> length (get_leaders (top_n_season_leaders (Inr ex_players) 2) ''points'') \<le> 2
   \<and> sorted_wrt leader_before
         (get_leaders (top_n_season_leaders (Inr ex_players) 2) ''points'')
   \<and> get_leaders (top_n_season_leaders (Inr ex_players) 2) ''points''
        = [\<lparr>le_name = ''A'', le_value = 30\<rparr>, \<lparr>le_name = ''B'', le_value = 30\<rparr>]"
proof -
  have a: "''points'' \<in> set tracked_stats" by (simp add: tracked_stats_def)
  have b: "(0::int) \<le> 2" by simp
  have c: "get_leaders (top_n_season_leaders (Inr ex_players) 2) ''points''
        = [\<lparr>le_name = ''A'', le_value = 30\<rparr>, \<lparr>le_name = ''B'', le_value = 30\<rparr>]"
    by code_simp
  show ?thesis
    using top_n_leaders_bounded_positive_sorted [OF a b, of ex_players] a c by simp
qed

section \<open>Properties of the records tracker\<close>

lemma flt_lt_irrefl: "\<not> flt_lt a a"
  by (cases a) simp_all

lemma flt_lt_not_nan: "flt_lt a b \<Longrightarrow> a \<noteq> NaN \<and> b \<noteq> NaN"
  by (cases a; cases b) simp_all

lemma flt_lt_asym: "flt_lt a b \<Longrightarrow> \<not> flt_lt b a"
  by (cases a; cases b) simp_all

lemma flt_lt_trans: "flt_lt a b \<Longrightarrow> flt_lt b c \<Longrightarrow> flt_lt a c"
  by (cases a; cases b; cases c) simp_all

lemma flt_lt_total: "a \<noteq> NaN \<Longrightarrow> b \<noteq> NaN \<Longrightarrow> flt_lt a b \<or> a = b \<or> flt_lt b a"
  by (cases a; cases b) auto

lemma flt_le_refl: "a \<noteq> NaN \<Longrightarrow> flt_le a a"
  by (simp add: flt_le_def)

lemma flt_le_trans: "flt_le a b \<Longrightarrow> flt_le b c \<Longrightarrow> flt_le a c"
  unfolding flt_le_def using flt_lt_trans by blast

lemma flt_le_antisym: "flt_le a b \<Longrightarrow> flt_le b a \<Longrightarrow> a = b"
  unfolding flt_le_def using flt_lt_asym by blast

lemma not_lt_le: "a \<noteq> NaN \<Longrightarrow> b \<noteq> NaN \<Longrightarrow> \<not> flt_lt a b \<Longrightarrow> flt_le b a"
  unfolding flt_le_def using flt_lt_total [of a b] by auto

lemma flt_le_not_lt: "flt_le a b \<Longrightarrow> \<not> flt_lt b a"
  unfolding flt_le_def using flt_lt_asym flt_lt_irrefl by blast

lemma new_record_value: "sg_value (new_record c) = rc_value c"
  by (simp add: new_record_def)

lemma new_record_holder: "sg_holder (new_record c) = rc_holder c"
  by (simp add: new_record_def)

lemma length_filter_snd:
  "length (filter (\<lambda>sv. P (snd sv)) xs) = length (filter P (map snd xs))"
  by (induction xs) simp_all

lemma ex_double_double:
  "check_double_triple_doubles RecordsData_default (row_of ''P'' 15 11 4 2 1)
      (Some 7) (Some 1) (Some 2) None
   = RecordsData_default\<lparr>rd_double_doubles :=
      [\<lparr>dd_player = ''P'', dd_game = ''Team 1 vs Team 2'', dd_date = ''2024-01-15'',
        dd_categories = [''points'', ''rebounds''],
        dd_values = [(''points'', Fin 15), (''rebounds'', Fin 11)],
        dd_player_id = Some 7, dd_team_id = Some 1, dd_opp_team_id = Some 2,
        dd_game_url = None, dd_player_url = None\<rparr>]\<rparr>"
  by (simp add: check_double_triple_doubles_def row_of_def RecordsData_default_def flt_le_def)

lemma try_update_max_step:
  "try_update_max (Some r) c = Some r' \<Longrightarrow>
   (r' = r \<or> flt_lt (sg_value r) (sg_value r')) \<and> \<not> flt_lt (sg_value r') (sg_value r)
   \<and> (sg_value r \<noteq> NaN \<longrightarrow> flt_le (sg_value r) (sg_value r'))"
  using flt_lt_asym [of "sg_value r" "rc_value c"] flt_lt_irrefl [of "sg_value r"]
  by (auto simp: try_update_max_def new_record_value flt_le_def split: if_splits)

lemma try_update_max_Some: "\<exists>r'. try_update_max (Some r) c = Some r'"
  by (simp add: try_update_max_def)


text \<open>
  Claim C4. With \<open>k\<close> the number of the five count statistics of a row that are at
  least ten, \<^verbatim>\<open>_check_double_triple_doubles\<close> appends one entry to the double-doubles
  iff \<open>k = 2\<close>, appends one entry to the triple-doubles iff \<open>k \<ge> 3\<close>, and never
  appends to both. The row with 15 points, 11 rebounds, 4 assists, 2 steals and 1 block
  gives one double-double with the categories points and rebounds and no triple-double.
\<close>

theorem double_triple_classification:
  fixes records row player_id team_id opp_team_id game_url
  defines "r' \<equiv> check_double_triple_doubles records row player_id team_id opp_team_id game_url"
  shows "((\<exists>dd. rd_double_doubles r' = rd_double_doubles records @ [dd])
            \<longleftrightarrow> double_digit_count row = 2)
       \<and> ((\<exists>td. rd_triple_doubles r' = rd_triple_doubles records @ [td])
            \<longleftrightarrow> 3 \<le> double_digit_count row)
       \<and> (rd_double_doubles r' = rd_double_doubles records
            \<or> rd_triple_doubles r' = rd_triple_doubles records)
       \<and> check_double_triple_doubles RecordsData_default (row_of ''P'' 15 11 4 2 1)
            (Some 7) (Some 1) (Some 2) None
          = RecordsData_default\<lparr>rd_double_doubles :=
              [\<lparr>dd_player = ''P'', dd_game = ''Team 1 vs Team 2'', dd_date = ''2024-01-15'',
                dd_categories = [''points'', ''rebounds''],
                dd_values = [(''points'', Fin 15), (''rebounds'', Fin 11)],
                dd_player_id = Some 7, dd_team_id = Some 1, dd_opp_team_id = Some 2,
                dd_game_url = None, dd_player_url = None\<rparr>]\<rparr>"
proof -
  define vals where "vals = filter (\<lambda>sv. flt_le (Fin 10) (snd sv))
            [(''points'', row_points row), (''rebounds'', row_rebounds row),
             (''assists'', row_assists row), (''steals'', row_steals row),
             (''blocks'', row_blocks row)]"
  have k: "length vals = double_digit_count row"
    unfolding vals_def double_digit_count_def length_filter_snd by simp
  define td where "td = \<lparr>td_player = row_name row, td_game = row_game row,
               td_date = row_date row,
               td_categories = map fst vals, td_values = vals,
               td_player_id = player_id, td_team_id = team_id,
               td_opp_team_id = opp_team_id, td_game_url = game_url,
               td_player_url = None\<rparr>"
  define dd where "dd = \<lparr>dd_player = row_name row, dd_game = row_game row,
               dd_date = row_date row,
               dd_categories = map fst vals, dd_values = vals,
               dd_player_id = player_id, dd_team_id = team_id,
               dd_opp_team_id = opp_team_id, dd_game_url = game_url,
               dd_player_url = None\<rparr>"
  have r': "r' = (if 3 \<le> double_digit_count row
                 then records\<lparr>rd_triple_doubles := rd_triple_doubles records @ [td]\<rparr>
                 else if 2 \<le> double_digit_count row
                 then records\<lparr>rd_double_doubles := rd_double_doubles records @ [dd]\<rparr>
                 else records)"
    unfolding r'_def check_double_triple_doubles_def Let_def vals_def [symmetric]
      length_map k td_def dd_def ..
  consider "3 \<le> double_digit_count row" | "double_digit_count row = 2"
    | "double_digit_count row < 2" by linarith
  then have "((\<exists>dd. rd_double_doubles r' = rd_double_doubles records @ [dd])
            \<longleftrightarrow> double_digit_count row = 2)
       \<and> ((\<exists>td. rd_triple_doubles r' = rd_triple_doubles records @ [td])
            \<longleftrightarrow> 3 \<le> double_digit_count row)
       \<and> (rd_double_doubles r' = rd_double_doubles records
            \<or> rd_triple_doubles r' = rd_triple_doubles records)"
  proof cases
    case 1
    then show ?thesis unfolding r' by simp
  next
    case 2
    then show ?thesis unfolding r' by simp
  next
    case 3
    then show ?thesis unfolding r' by simp
  qed
  then show ?thesis using ex_double_double by simp
qed

text \<open>
  Claim C5. \<^verbatim>\<open>_try_update_max\<close> returns something other than the current record iff
  the record is unset or the candidate's value is strictly greater than the record's; what
  it then returns is the record built from the candidate, with the candidate's value and
  holder. A candidate whose value equals the record's leaves the incumbent as it is. The
  value of a set record never decreases: the record returned is the incumbent or has a
  strictly greater value, its value is never less than the incumbent's, and it is at least
  the incumbent's whenever that is a number.
\<close>

theorem try_update_max_replaces_iff_strictly_greater:
  "(try_update_max current candidate \<noteq> current
      \<longleftrightarrow> current = None
          \<or> (\<exists>r. current = Some r \<and> flt_lt (sg_value r) (rc_value candidate)))
   \<and> (try_update_max current candidate \<noteq> current
      \<longrightarrow> try_update_max current candidate = Some (new_record candidate)
          \<and> sg_value (new_record candidate) = rc_value candidate
          \<and> sg_holder (new_record candidate) = rc_holder candidate)
   \<and> (\<forall>r. current = Some r \<and> rc_value candidate = sg_value r
      \<longrightarrow> try_update_max current candidate = Some r)
   \<and> (\<forall>r. current = Some r
      \<longrightarrow> (\<exists>r'. try_update_max current candidate = Some r'
               \<and> (r' = r \<or> flt_lt (sg_value r) (sg_value r'))
               \<and> \<not> flt_lt (sg_value r') (sg_value r)
               \<and> (sg_value r \<noteq> NaN \<longrightarrow> flt_le (sg_value r) (sg_value r'))))"
proof (cases current)
  case None
  then show ?thesis by (simp add: try_update_max_def new_record_value new_record_holder)
next
  case (Some r)
  have ne: "flt_lt (sg_value r) (rc_value candidate) \<Longrightarrow> new_record candidate \<noteq> r"
    using new_record_value [of candidate] flt_lt_irrefl [of "sg_value r"] by auto
  obtain r' where r': "try_update_max (Some r) candidate = Some r'"
    using try_update_max_Some by blast
  have a: "try_update_max current candidate \<noteq> current
      \<longleftrightarrow> current = None
          \<or> (\<exists>r. current = Some r \<and> flt_lt (sg_value r) (rc_value candidate))"
    using Some ne by (auto simp: try_update_max_def)
  have b: "try_update_max current candidate \<noteq> current
      \<longrightarrow> try_update_max current candidate = Some (new_record candidate)
          \<and> sg_value (new_record candidate) = rc_value candidate
          \<and> sg_holder (new_record candidate) = rc_holder candidate"
    using Some by (auto simp: try_update_max_def new_record_value new_record_holder)
  have c: "\<forall>r. current = Some r \<and> rc_value candidate = sg_value r
      \<longrightarrow> try_update_max current candidate = Some r"
    using flt_lt_irrefl by (auto simp: try_update_max_def)
  have d: "\<forall>r. current = Some r
      \<longrightarrow> (\<exists>r'. try_update_max current candidate = Some r'
               \<and> (r' = r \<or> flt_lt (sg_value r) (sg_value r'))
               \<and> \<not> flt_lt (sg_value r') (sg_value r)
               \<and> (sg_value r \<noteq> NaN \<longrightarrow> flt_le (sg_value r) (sg_value r')))"
    using Some r' try_update_max_step [OF r'] by auto
  show ?thesis using a b c d by blast
qed

theorem try_update_max_witness:
  "try_update_max (Some (new_record (candidate_of ''X'' (Fin 40)))) (candidate_of ''Y'' (Fin 55))
     = Some (new_record (candidate_of ''Y'' (Fin 55)))
   \<and> try_update_max (Some (new_record (candidate_of ''X'' (Fin 40))))
        (candidate_of ''Y'' (Fin 40))
     = Some (new_record (candidate_of ''X'' (Fin 40)))
   \<and> (\<exists>r'. try_update_max (Some (new_record (candidate_of ''X'' (Fin 40))))
              (candidate_of ''Y'' (Fin 30)) = Some r'
            \<and> flt_le (Fin 40) (sg_value r'))"
proof -
  let ?x = "new_record (candidate_of ''X'' (Fin 40))"
  have vx: "sg_value ?x = Fin 40" by (simp add: new_record_def candidate_of_def)
  have v55: "rc_value (candidate_of ''Y'' (Fin 55)) = Fin 55" by (simp add: candidate_of_def)
  have v40: "rc_value (candidate_of ''Y'' (Fin 40)) = Fin 40" by (simp add: candidate_of_def)
  have a: "try_update_max (Some ?x) (candidate_of ''Y'' (Fin 55))
      = Some (new_record (candidate_of ''Y'' (Fin 55)))"
    using try_update_max_replaces_iff_strictly_greater
            [of "Some ?x" "candidate_of ''Y'' (Fin 55)"] vx v55 by simp
  have b: "try_update_max (Some ?x) (candidate_of ''Y'' (Fin 40)) = Some ?x"
    using try_update_max_replaces_iff_strictly_greater
            [of "Some ?x" "candidate_of ''Y'' (Fin 40)"] vx v40 by simp
  have c: "\<exists>r'. try_update_max (Some ?x) (candidate_of ''Y'' (Fin 30)) = Some r'
            \<and> flt_le (Fin 40) (sg_value r')"
    using try_update_max_replaces_iff_strictly_greater
            [of "Some ?x" "candidate_of ''Y'' (Fin 30)"] vx by auto
  show ?thesis using a b c by simp
qed

lemma fold_candidates_snoc:
  "fold_candidates cur (cs @ [c]) = try_update_max (fold_candidates cur cs) c"
  by (simp add: fold_candidates_def)

lemma fold_candidates_Some:
  assumes "sg_value r \<noteq> NaN" and "\<forall>c \<in> set cs. rc_value c \<noteq> NaN"
  shows "\<exists>r'. fold_candidates (Some r) cs = Some r'
     \<and> sg_value r' \<in> insert (sg_value r) (rc_value ` set cs)
     \<and> flt_le (sg_value r) (sg_value r')
     \<and> (\<forall>c \<in> set cs. flt_le (rc_value c) (sg_value r'))"
  using assms(2)
proof (induction cs rule: rev_induct)
  case Nil
  then show ?case using assms(1) by (simp add: fold_candidates_def flt_le_refl)
next
  case (snoc c cs)
  then obtain r' where r': "fold_candidates (Some r) cs = Some r'"
    and mem: "sg_value r' \<in> insert (sg_value r) (rc_value ` set cs)"
    and ge: "flt_le (sg_value r) (sg_value r')"
    and ub: "\<forall>c \<in> set cs. flt_le (rc_value c) (sg_value r')" by auto
  have nn: "sg_value r' \<noteq> NaN" using mem assms(1) snoc.prems by auto
  have cn: "rc_value c \<noteq> NaN" using snoc.prems by simp
  show ?case
  proof (cases "flt_lt (sg_value r') (rc_value c)")
    case True
    have le: "flt_le (sg_value r') (rc_value c)" using True by (simp add: flt_le_def)
    have f: "fold_candidates (Some r) (cs @ [c]) = Some (new_record c)"
      unfolding fold_candidates_snoc r' using True by (simp add: try_update_max_def)
    have "flt_le (sg_value r) (rc_value c)" using ge le by (rule flt_le_trans)
    moreover have "\<forall>c' \<in> set cs. flt_le (rc_value c') (rc_value c)"
      using ub le flt_le_trans by blast
    moreover have "flt_le (rc_value c) (rc_value c)" using cn by (rule flt_le_refl)
    ultimately show ?thesis using f by (simp add: new_record_value)
  next
    case False
    have f: "fold_candidates (Some r) (cs @ [c]) = Some r'"
      unfolding fold_candidates_snoc r' using False by (simp add: try_update_max_def)
    have "flt_le (rc_value c) (sg_value r')" using nn cn False by (rule not_lt_le)
    then show ?thesis using f mem ge ub by auto
  qed
qed

lemma fold_candidates_None:
  assumes "cs \<noteq> []" and "\<forall>c \<in> set cs. rc_value c \<noteq> NaN"
  shows "\<exists>r'. fold_candidates None cs = Some r' \<and> sg_value r' \<in> rc_value ` set cs
      \<and> (\<forall>c \<in> set cs. flt_le (rc_value c) (sg_value r'))"
proof -
  obtain c cs' where cs: "cs = c # cs'" using assms(1) by (cases cs) auto
  have st: "fold_candidates None cs = fold_candidates (Some (new_record c)) cs'"
    unfolding cs by (simp add: fold_candidates_def try_update_max_def)
  have n1: "sg_value (new_record c) \<noteq> NaN" using assms(2) cs by (simp add: new_record_value)
  have n2: "\<forall>c \<in> set cs'. rc_value c \<noteq> NaN" using assms(2) cs by simp
  obtain r' where r': "fold_candidates (Some (new_record c)) cs' = Some r'"
    and mem: "sg_value r' \<in> insert (sg_value (new_record c)) (rc_value ` set cs')"
    and ge: "flt_le (sg_value (new_record c)) (sg_value r')"
    and ub: "\<forall>c \<in> set cs'. flt_le (rc_value c) (sg_value r')"
    using fold_candidates_Some [OF n1 n2] by blast
  show ?thesis using st r' mem ge ub unfolding cs by (auto simp: new_record_value)
qed

lemma fold_candidates_mono:
  assumes "fold_candidates cur cs = Some r"
  shows "\<exists>r'. fold_candidates cur (cs @ [c]) = Some r'
     \<and> \<not> flt_lt (sg_value r') (sg_value r)
     \<and> (sg_value r \<noteq> NaN \<longrightarrow> flt_le (sg_value r) (sg_value r'))"
proof -
  obtain r' where r': "try_update_max (Some r) c = Some r'"
    using try_update_max_Some by blast
  show ?thesis unfolding fold_candidates_snoc assms
    using r' try_update_max_step [OF r'] by simp
qed

lemma fold_candidates_perm:
  assumes "mset cs = mset cs'" and "\<forall>c \<in> set cs. rc_value c \<noteq> NaN"
  shows "map_option sg_value (fold_candidates None cs)
       = map_option sg_value (fold_candidates None cs')"
proof (cases "cs = []")
  case True
  then have "cs' = []" using assms(1) by auto
  with True show ?thesis by simp
next
  case False
  then have ne: "cs' \<noteq> []" using assms(1) by auto
  have s: "set cs = set cs'" using assms(1) by (rule mset_eq_setD)
  have n': "\<forall>c \<in> set cs'. rc_value c \<noteq> NaN" using assms(2) s by simp
  obtain r1 where r1: "fold_candidates None cs = Some r1"
    and m1: "sg_value r1 \<in> rc_value ` set cs"
    and u1: "\<forall>c \<in> set cs. flt_le (rc_value c) (sg_value r1)"
    using fold_candidates_None [OF False assms(2)] by blast
  obtain r2 where r2: "fold_candidates None cs' = Some r2"
    and m2: "sg_value r2 \<in> rc_value ` set cs'"
    and u2: "\<forall>c \<in> set cs'. flt_le (rc_value c) (sg_value r2)"
    using fold_candidates_None [OF ne n'] by blast
  have "flt_le (sg_value r1) (sg_value r2)" using m1 u2 s by auto
  moreover have "flt_le (sg_value r2) (sg_value r1)" using m2 u1 s by auto
  ultimately have "sg_value r1 = sg_value r2" by (rule flt_le_antisym)
  then show ?thesis using r1 r2 by simp
qed

lemma ex_fold_40_55:
  "map_option sg_value
     (fold_candidates None [candidate_of ''X'' (Fin 40), candidate_of ''Y'' (Fin 55)])
     = Some (Fin 55)
   \<and> map_option sg_value
     (fold_candidates None [candidate_of ''Y'' (Fin 55), candidate_of ''X'' (Fin 40)])
     = Some (Fin 55)"
  by (simp add: fold_candidates_def try_update_max_def candidate_of_def new_record_value)

text \<open>
  Claim C6, as the code has it. While candidates are folded through
  \<^verbatim>\<open>_try_update_max\<close>, one more candidate never lowers the value of the record, and
  leaves it at least as great when it is a number. For a non-empty sequence of candidates
  none of whose values is \<^verbatim>\<open>nan\<close>, the final value from the unset record is the
  maximum of the candidates' values: it is the value of one of them and no candidate's
  value is greater. Two sequences of such candidates with the same candidates in
  different orders end at the same value. Candidates with 40 and 55 points end at 55 in
  either order.
\<close>

theorem max_fold_monotone_order_independent:
  "(fold_candidates cur cs = Some r
      \<longrightarrow> (\<exists>r'. fold_candidates cur (cs @ [c]) = Some r'
               \<and> \<not> flt_lt (sg_value r') (sg_value r)
               \<and> (sg_value r \<noteq> NaN \<longrightarrow> flt_le (sg_value r) (sg_value r'))))
   \<and> (cs \<noteq> [] \<and> (\<forall>c \<in> set cs. rc_value c \<noteq> NaN)
      \<longrightarrow> (\<exists>r'. fold_candidates None cs = Some r' \<and> sg_value r' \<in> rc_value ` set cs
               \<and> (\<forall>c \<in> set cs. flt_le (rc_value c) (sg_value r'))))
   \<and> (mset cs = mset cs' \<and> (\<forall>c \<in> set cs. rc_value c \<noteq> NaN)
      \<longrightarrow> map_option sg_value (fold_candidates None cs)
          = map_option sg_value (fold_candidates None cs'))
   \<and> map_option sg_value
        (fold_candidates None [candidate_of ''X'' (Fin 40), candidate_of ''Y'' (Fin 55)])
       = Some (Fin 55)
   \<and> map_option sg_value
        (fold_candidates None [candidate_of ''Y'' (Fin 55), candidate_of ''X'' (Fin 40)])
       = Some (Fin 55)"
proof -
  have a: "fold_candidates cur cs = Some r
      \<longrightarrow> (\<exists>r'. fold_candidates cur (cs @ [c]) = Some r'
               \<and> \<not> flt_lt (sg_value r') (sg_value r)
               \<and> (sg_value r \<noteq> NaN \<longrightarrow> flt_le (sg_value r) (sg_value r')))"
    using fold_candidates_mono by blast
  have b: "cs \<noteq> [] \<and> (\<forall>c \<in> set cs. rc_value c \<noteq> NaN)
      \<longrightarrow> (\<exists>r'. fold_candidates None cs = Some r' \<and> sg_value r' \<in> rc_value ` set cs
               \<and> (\<forall>c \<in> set cs. flt_le (rc_value c) (sg_value r')))"
    using fold_candidates_None [of cs] by blast
  have c: "mset cs = mset cs' \<and> (\<forall>c \<in> set cs. rc_value c \<noteq> NaN)
      \<longrightarrow> map_option sg_value (fold_candidates None cs)
          = map_option sg_value (fold_candidates None cs')"
    using fold_candidates_perm by blast
  show ?thesis using a b c ex_fold_40_55 by blast
qed

theorem max_fold_witness:
  "fold_candidates None [candidate_of ''X'' (Fin 40), candidate_of ''Y'' (Fin 55)]
     = Some (new_record (candidate_of ''Y'' (Fin 55)))
   \<and> (\<exists>r'. fold_candidates None ([candidate_of ''X'' (Fin 40), candidate_of ''Y'' (Fin 55)]
                                   @ [candidate_of ''Z'' (Fin 30)]) = Some r'
            \<and> flt_le (Fin 55) (sg_value r'))
   \<and> rc_value (candidate_of ''X'' (Fin 40)) \<noteq> NaN
   \<and> rc_value (candidate_of ''Y'' (Fin 55)) \<noteq> NaN
   \<and> (\<exists>r'. fold_candidates None [candidate_of ''X'' (Fin 40), candidate_of ''Y'' (Fin 55)]
              = Some r'
            \<and> flt_le (Fin 40) (sg_value r') \<and> flt_le (Fin 55) (sg_value r'))
   \<and> mset [candidate_of ''X'' (Fin 40), candidate_of ''Y'' (Fin 55)]
       = mset [candidate_of ''Y'' (Fin 55), candidate_of ''X'' (Fin 40)]
   \<and> map_option sg_value
        (fold_candidates None [candidate_of ''X'' (Fin 40), candidate_of ''Y'' (Fin 55)])
       = map_option sg_value
           (fold_candidates None [candidate_of ''Y'' (Fin 55), candidate_of ''X'' (Fin 40)])"
proof -
  let ?cs = "[candidate_of ''X'' (Fin 40), candidate_of ''Y'' (Fin 55)]"
  let ?cs' = "[candidate_of ''Y'' (Fin 55), candidate_of ''X'' (Fin 40)]"
  let ?r = "new_record (candidate_of ''Y'' (Fin 55))"
  have h1: "fold_candidates None ?cs = Some ?r"
    by (simp add: fold_candidates_def try_update_max_def candidate_of_def new_record_value)
  have h2: "?cs \<noteq> []" by simp
  have h3: "mset ?cs = mset ?cs'" by (simp add: add.commute)
  have h4: "\<forall>c \<in> set ?cs. rc_value c \<noteq> NaN" by (simp add: candidate_of_def)
  have v: "sg_value ?r = Fin 55" by (simp add: new_record_value candidate_of_def)
  have vx: "rc_value (candidate_of ''X'' (Fin 40)) = Fin 40" by (simp add: candidate_of_def)
  have vy: "rc_value (candidate_of ''Y'' (Fin 55)) = Fin 55" by (simp add: candidate_of_def)
  show ?thesis
    using max_fold_monotone_order_independent
            [of None ?cs ?r "candidate_of ''Z'' (Fin 30)" ?cs'] h1 h2 h3 h4 v vx vy
    by auto
qed

text \<open>
  Claim C6 as stated fails for a candidate whose value is \<^verbatim>\<open>nan\<close>, which
  \<^verbatim>\<open>float("nan")\<close> gives for a statistic of the payload: every comparison with it is
  false, so it is never replaced once it is the record and never replaces a record. The
  candidates \<^verbatim>\<open>nan\<close> and 55 end at \<^verbatim>\<open>nan\<close> in this order and at 55 in the other.
\<close>

theorem max_fold_depends_on_order_with_nan:
  "map_option sg_value
     (fold_candidates None [candidate_of ''X'' NaN, candidate_of ''Y'' (Fin 55)])
     = Some NaN
   \<and> map_option sg_value
     (fold_candidates None [candidate_of ''Y'' (Fin 55), candidate_of ''X'' NaN])
     = Some (Fin 55)"
  by (simp add: fold_candidates_def try_update_max_def candidate_of_def new_record_value)

section \<open>Properties of the row extractor\<close>

lemma filter_dict_set_id:
  "k \<in> set id_keys \<Longrightarrow>
   filter (\<lambda>e. fst e \<notin> set id_keys) (dict_set k v d) = filter (\<lambda>e. fst e \<notin> set id_keys) d"
  by (induction d) auto

lemma walk_map:
  assumes "\<And>x. g (fst (f x)) = g x"
  shows "map g (fst (walk f xs)) = map g xs"
proof (induction xs)
  case Nil
  then show ?case by simp
next
  case (Cons x xs)
  obtain x' res where fx: "f x = (x', res)" by (cases "f x")
  have gx: "g x' = g x" using assms [of x] fx by simp
  obtain xs' res' where w: "walk f xs = (xs', res')" by (cases "walk f xs")
  have gxs: "map g xs' = map g xs" using Cons.IH w by simp
  show ?case using fx w gx gxs by (cases res; cases res') simp_all
qed

lemma annotate_row_strip:
  "strip_row (JDict (fst (annotate_row L c side row))) = strip_row (JDict row)"
proof -
  have k: "''player_id'' \<in> set id_keys" "''team_id'' \<in> set id_keys"
    "''opp_team_id'' \<in> set id_keys" by (simp_all add: id_keys_def)
  note w = filter_dict_set_id [OF k(1)] filter_dict_set_id [OF k(2)]
    filter_dict_set_id [OF k(3)]
  show ?thesis
    unfolding annotate_row_def Let_def strip_row_def json.case
    by (simp only: w split: sum.splits if_splits prod.splits) (auto simp only: w fst_conv)
qed

lemma box_row_strip: "strip_row (fst (box_row L c side_of r)) = strip_row r"
proof (cases r)
  case (JDict row)
  obtain row' res where a: "annotate_row L c (side_of row) row = (row', res)"
    by (cases "annotate_row L c (side_of row) row")
  have "strip_row (JDict row') = strip_row (JDict row)"
    using annotate_row_strip [of L c "side_of row" row] a by simp
  then show ?thesis using JDict a by (cases res) (simp_all add: box_row_def)
qed (simp_all add: box_row_def)

lemma walk_box_row_strip:
  "map strip_row (fst (walk (box_row L c side_of) l)) = map strip_row l"
  by (rule walk_map) (rule box_row_strip)

lemma box_side_strip: "strip_side (fst (box_side L c e)) = strip_side e"
proof (cases "snd e")
  case (JList player_rows)
  obtain l' res where w: "walk (box_row L c (\<lambda>row. fst e)) player_rows = (l', res)"
    by (cases "walk (box_row L c (\<lambda>row. fst e)) player_rows")
  have "map strip_row l' = map strip_row player_rows"
    using walk_box_row_strip [of L c "\<lambda>row. fst e" player_rows] w by simp
  then show ?thesis using JList w by (simp add: box_side_def strip_side_def)
qed (simp_all add: box_side_def strip_side_def)

lemma process_boxscore_strip: "strip_box (fst (process_boxscore L c b)) = strip_box b"
proof (cases b)
  case (JList l)
  obtain l' res where w: "walk (box_row L c (list_side L c)) l = (l', res)"
    by (cases "walk (box_row L c (list_side L c)) l")
  have "map strip_row l' = map strip_row l"
    using walk_box_row_strip [of L c "list_side L c" l] w by simp
  then show ?thesis using JList w by (simp add: process_boxscore_def strip_box_def)
next
  case (JDict d)
  obtain d' res where w: "walk (box_side L c) d = (d', res)"
    by (cases "walk (box_side L c) d")
  have "map strip_side (fst (walk (box_side L c) d)) = map strip_side d"
    by (rule walk_map) (rule box_side_strip)
  then have "map strip_side d' = map strip_side d" unfolding w fst_conv .
  then show ?thesis using JDict w by (simp add: process_boxscore_def strip_box_def)
qed (simp_all add: process_boxscore_def strip_box_def)

lemma dict_map_at_dict_set:
  "map_of d k = Some b \<Longrightarrow> f b' = f b \<Longrightarrow>
   dict_map_at k f (dict_set k b' d) = dict_map_at k f d"
proof (induction d)
  case Nil
  then show ?case by simp
next
  case (Cons e d)
  show ?case
  proof (cases "fst e = k")
    case True
    then have "snd e = b" using Cons.prems(1) by (cases e) auto
    then show ?thesis using True Cons.prems(2) by simp
  next
    case False
    then have "map_of d k = Some b" using Cons.prems(1) by (cases e) auto
    then show ?thesis using False Cons.IH Cons.prems(2) by simp
  qed
qed

lemma truthy_dict_get: "truthy (dict_get d k) \<Longrightarrow> map_of d k = Some (dict_get d k)"
  by (cases "map_of d k") (simp_all add: dict_get_def)

lemma set_top_boxscore_strip:
  assumes "truthy (dict_get d ''boxscore'')"
    and "strip_box b' = strip_box (dict_get d ''boxscore'')"
  shows "dict_map_at ''boxscore'' strip_box (dict_set ''boxscore'' b' d)
       = dict_map_at ''boxscore'' strip_box d"
  using truthy_dict_get [OF assms(1)] assms(2) by (rule dict_map_at_dict_set)

lemma set_sub_boxscore_strip:
  assumes "sub_boxscore event k = Inr b" and "truthy b" and "strip_box b' = strip_box b"
  shows "strip_sub k (set_sub_boxscore k b' event) = strip_sub k event"
proof (cases "map_of event k")
  case None
  then have "b = JNull" using assms(1)
    by (simp add: sub_boxscore_def dict_get_default_def dict_get_def)
  then show ?thesis using assms(2) by simp
next
  case (Some v)
  then obtain m where v: "v = JDict m" and b: "b = dict_get m ''boxscore''"
    using assms(1) by (cases v) (simp_all add: sub_boxscore_def dict_get_default_def)
  have inner: "dict_map_at ''boxscore'' strip_box (dict_set ''boxscore'' b' m)
      = dict_map_at ''boxscore'' strip_box m"
    using assms(2,3) unfolding b by (rule set_top_boxscore_strip)
  let ?f = "\<lambda>v. case v of JDict m \<Rightarrow> JDict (dict_map_at ''boxscore'' strip_box m) | _ \<Rightarrow> v"
  have "?f (JDict (dict_set ''boxscore'' b' m)) = ?f v" using inner v by simp
  then have "dict_map_at k ?f (dict_set k (JDict (dict_set ''boxscore'' b' m)) event)
      = dict_map_at k ?f event"
    using Some by (intro dict_map_at_dict_set)
  then show ?thesis using Some v by (simp add: set_sub_boxscore_def dict_get_def strip_sub_def)
qed

lemma extract_frame:
  "(case processed_path L event of
      None \<Rightarrow> fst (extract_rows_from_event L event) = event
    | Some p \<Rightarrow> strip_path p (fst (extract_rows_from_event L event)) = strip_path p event)"
proof -
  let ?c = "event_ctx L event"
  have p: "\<And>b. strip_box (fst (process_boxscore L ?c b)) = strip_box b"
    by (rule process_boxscore_strip)
  have sub: "\<And>k b. sub_boxscore event k = Inr b \<Longrightarrow> truthy b \<Longrightarrow>
      strip_sub k (set_sub_boxscore k (fst (process_boxscore L ?c b)) event)
      = strip_sub k event"
    using set_sub_boxscore_strip p by blast
  have top: "truthy (dict_get event ''boxscore'') \<Longrightarrow>
      dict_map_at ''boxscore'' strip_box (dict_set ''boxscore''
          (fst (process_boxscore L ?c (dict_get event ''boxscore''))) event)
      = dict_map_at ''boxscore'' strip_box event"
    using set_top_boxscore_strip p by blast
  show ?thesis
    unfolding extract_rows_from_event_def processed_path_def Let_def case_prod_beta
    using sub top
    by (auto split: sum.splits simp: strip_path_def)
qed

lemma extract_unchanged_if_perf:
  "perf_pass L (event_ctx L event) event = Inr rows \<Longrightarrow> rows \<noteq> [] \<Longrightarrow>
   fst (extract_rows_from_event L event) = event"
  unfolding extract_rows_from_event_def Let_def
  by (auto split: sum.splits)

lemma ex_perf_pass:
  "perf_pass std_lib (event_ctx std_lib ex_event_perf) ex_event_perf = Inr [ex_row_perf]"
  by code_simp


text \<open>
  Claim C8, as the code has it. \<^verbatim>\<open>_extract_rows_from_event\<close> changes nothing in the
  event except that the boxscore fallback stores entries under the keys
  \<^verbatim>\<open>player_id\<close>, \<^verbatim>\<open>team_id\<close> and \<^verbatim>\<open>opp_team_id\<close> in the row dictionaries of
  the one boxscore it processes: when it processes the boxscore at a place, the event
  before and the event after the call are equal once these keys are removed from the row
  dictionaries of the boxscore at that place, and when it processes none the event is
  unchanged. In particular the event is unchanged when the performance map yields rows.
\<close>

theorem extractor_changes_only_id_entries:
  "(case processed_path L event of
      None \<Rightarrow> fst (extract_rows_from_event L event) = event
    | Some p \<Rightarrow> strip_path p (fst (extract_rows_from_event L event)) = strip_path p event)
   \<and> (perf_pass L (event_ctx L event) event = Inr rows \<and> rows \<noteq> []
        \<longrightarrow> fst (extract_rows_from_event L event) = event)"
  using extract_frame [of L event] extract_unchanged_if_perf [of L event rows]
  by blast

theorem extractor_changes_only_id_entries_witness:
  "perf_pass std_lib (event_ctx std_lib ex_event_perf) ex_event_perf = Inr [ex_row_perf]
   \<and> fst (extract_rows_from_event std_lib ex_event_perf) = ex_event_perf
   \<and> processed_path std_lib ex_event_box = Some AtTop
   \<and> strip_path AtTop (fst (extract_rows_from_event std_lib ex_event_box))
       = strip_path AtTop ex_event_box"
proof -
  have p: "processed_path std_lib ex_event_box = Some AtTop" by code_simp
  show ?thesis
    using extractor_changes_only_id_entries [of std_lib ex_event_perf "[ex_row_perf]"]
      extractor_changes_only_id_entries [of std_lib ex_event_box "[]"]
      ex_perf_pass p
    by simp
qed

text \<open>
  Claim C8 as stated fails: the event with the teams 1 and 2 and a boxscore whose home
  side has one row for Player1 comes back with \<^verbatim>\<open>team_id\<close> 1 and
  \<^verbatim>\<open>opp_team_id\<close> 2 written into that row dictionary.
\<close>

theorem extractor_mutates_boxscore_rows:
  "fst (extract_rows_from_event std_lib ex_event_box) =
     [(''teams'', JList [JInt 1, JInt 2]),
      (''boxscore'',
       JDict [(''home'', JList [JDict [(''name'', JStr ''Player1''), (''pts'', JStr ''20''),
          (''team_id'', JInt 1), (''opp_team_id'', JInt 2)]])])]
   \<and> fst (extract_rows_from_event std_lib ex_event_box) \<noteq> ex_event_box"
  by code_simp

lemma collect_mem:
  "collect f xs = Inr rows \<Longrightarrow> r \<in> set rows \<Longrightarrow>
   \<exists>x \<in> set xs. \<exists>ys. f x = Inr ys \<and> r \<in> set ys"
proof (induction xs arbitrary: rows)
  case Nil
  then show ?case by simp
next
  case (Cons x xs)
  then obtain ys zs where fx: "f x = Inr ys" and c: "collect f xs = Inr zs"
    and rows: "rows = ys @ zs"
    by (auto split: sum.splits)
  show ?case
  proof (cases "r \<in> set ys")
    case True
    then show ?thesis using fx by auto
  next
    case False
    then have "r \<in> set zs" using Cons.prems(2) rows by simp
    then show ?thesis using Cons.IH [OF c] by auto
  qed
qed

lemma create_player_row_name:
  "create_player_row L row side a b d g = Inr r \<Longrightarrow>
   row_name r = py_str L (py_or (dict_get row ''name'')
               (py_or (dict_get row ''player'')
                  (py_or (dict_get row ''title'') (JStr ''Unknown''))))"
  unfolding create_player_row_def Let_def then_do_def
  by (auto split: sum.splits)

lemma perf_player_origin:
  assumes "perf_player L c team_id e = Inr ys" and "r \<in> set ys"
  shows "fst e \<noteq> ''0'' \<and> row_name r = ''Player '' @ fst e"
proof -
  have ne: "fst e \<noteq> ''0''" using assms by (auto simp: perf_player_def Let_def)
  obtain row side where cr: "create_player_row L row side (cx_team_a c) (cx_team_b c)
        (cx_date c) (cx_game_url c) = Inr r"
    and nm: "dict_get row ''name'' = JStr (''Player '' @ fst e)"
    using assms ne unfolding perf_player_def Let_def
    by (auto split: json.splits sum.splits if_splits simp: dict_get_def)
  show ?thesis using ne create_player_row_name [OF cr] nm
    by (simp add: py_or_def py_str_def)
qed

lemma perf_team_origin:
  assumes "perf_team L c e = Inr ys" and "r \<in> set ys"
  shows "fst e \<noteq> ''0'' \<and> (\<exists>tp k v. snd e = JDict tp \<and> (k, v) \<in> set tp \<and> k \<noteq> ''0''
           \<and> row_name r = ''Player '' @ k)"
proof -
  have ne: "fst e \<noteq> ''0''" using assms by (auto simp: perf_team_def)
  obtain tp where tp: "snd e = JDict tp"
    and c: "collect (perf_player L c (fst e)) tp = Inr ys"
    using assms ne by (auto simp: perf_team_def split: json.splits)
  obtain x zs where x: "x \<in> set tp" and px: "perf_player L c (fst e) x = Inr zs"
    and rz: "r \<in> set zs"
    using collect_mem [OF c assms(2)] by blast
  have "fst x \<noteq> ''0'' \<and> row_name r = ''Player '' @ fst x"
    using perf_player_origin [OF px rz] .
  then show ?thesis using ne tp x by (cases x) auto
qed

text \<open>
  The performance pass does skip the header keys: every row it returns is the row of a
  player key other than 0 under a team key other than 0.
\<close>

lemma perf_pass_origin:
  assumes "perf_pass L c event = Inr rows" and "r \<in> set rows"
  shows "\<exists>perf tk tp k v. dict_get event ''performance'' = JDict perf
           \<and> (tk, JDict tp) \<in> set perf \<and> tk \<noteq> ''0''
           \<and> (k, v) \<in> set tp \<and> k \<noteq> ''0'' \<and> row_name r = ''Player '' @ k"
proof -
  obtain perf where pf: "dict_get event ''performance'' = JDict perf"
    and c: "collect (perf_team L c) perf = Inr rows"
    using assms by (auto simp: perf_pass_def split: json.splits if_splits)
  obtain e ys where e: "e \<in> set perf" and pe: "perf_team L c e = Inr ys" and ry: "r \<in> set ys"
    using collect_mem [OF c assms(2)] by blast
  show ?thesis using perf_team_origin [OF pe ry] e pf by (cases e) auto
qed

text \<open>
  Claim C7. The boxscore fallback has no test for the header sentinel: the event whose
  boxscore is the list with the one row of id 0 and name Header returns a row for that
  entry, with player id 0, where the claim says that no returned row originates from an
  entry of player id 0.
\<close>

theorem boxscore_row_with_id_zero_is_returned:
  "map row_name (rows_of (snd (extract_rows_from_event std_lib ex_event_header)))
     = [''Header'']
   \<and> map row_player_id (rows_of (snd (extract_rows_from_event std_lib ex_event_header)))
     = [Some 0]"
  by code_simp

section \<open>Properties of the scan of all events\<close>

lemma scan_events_skip:
  "extract_event L event = Inl err \<Longrightarrow>
   scan_events L cfg records (before @ event # after) = scan_events L cfg records (before @ after)"
  by (simp add: scan_events_def scan_event_def)

lemma scan_events_Nil: "scan_events L cfg records [] = records"
  by (simp add: scan_events_def)

lemma fetch_pages_break:
  "respond page = PageError \<or> (\<exists>n. respond page = PageStatus n) \<Longrightarrow>
   fetch_pages respond page left events = events"
  by (cases left) auto

lemma add_events_dicts:
  "list_all is_dict data \<Longrightarrow> add_events data events = (events @ filter has_data data, True)"
proof (induction data arbitrary: events)
  case Nil
  then show ?case by simp
next
  case (Cons event data)
  then obtain ev where ev: "event = JDict ev" by (cases event) (simp_all add: is_dict_def)
  have "list_all is_dict data" using Cons.prems by simp
  then show ?case using Cons.IH ev by (simp add: has_data_def)
qed

lemma fetch_pages_good:
  assumes "\<forall>p. page \<le> p \<and> p < page + j \<longrightarrow>
             respond p = PageData (JList (pages p)) \<and> pages p \<noteq> []
             \<and> list_all is_dict (pages p)"
    and "respond (page + j) = PageError \<or> (\<exists>n. respond (page + j) = PageStatus n)"
    and "j < left"
  shows "fetch_pages respond page left events
       = events @ concat (map (\<lambda>p. filter has_data (pages p)) [page..<page + j])"
  using assms
proof (induction j arbitrary: page left events)
  case 0
  then show ?case using fetch_pages_break [of respond page left events] by simp
next
  case (Suc j)
  obtain left' where left: "left = Suc left'" using Suc.prems(3) by (cases left) auto
  have here: "respond page = PageData (JList (pages page))" "pages page \<noteq> []"
    "list_all is_dict (pages page)" using Suc.prems(1) by auto
  have rest: "\<forall>p. Suc page \<le> p \<and> p < Suc page + j \<longrightarrow>
             respond p = PageData (JList (pages p)) \<and> pages p \<noteq> []
             \<and> list_all is_dict (pages p)" using Suc.prems(1) by auto
  have fail: "respond (Suc page + j) = PageError \<or> (\<exists>n. respond (Suc page + j) = PageStatus n)"
    using Suc.prems(2) by simp
  have lt: "j < left'" using Suc.prems(3) left by simp
  have step: "fetch_pages respond page left events
      = fetch_pages respond (Suc page) left' (events @ filter has_data (pages page))"
    unfolding left using here by (simp add: add_events_dicts)
  have ih: "fetch_pages respond (Suc page) left' (events @ filter has_data (pages page))
      = (events @ filter has_data (pages page))
        @ concat (map (\<lambda>p. filter has_data (pages p)) [Suc page..<Suc page + j])"
    using Suc.IH [OF rest fail lt] .
  have up: "[page..<page + Suc j] = page # [Suc page..<Suc page + j]"
    by (simp add: upt_conv_Cons)
  show ?case unfolding step ih up by simp
qed

lemma compute_pages_good:
  assumes "1 \<le> k" and "k \<le> 50"
    and "\<forall>p. 1 \<le> p \<and> p < k \<longrightarrow>
             respond p = PageData (JList (pages p)) \<and> pages p \<noteq> []
             \<and> list_all is_dict (pages p)"
    and "respond k = PageError \<or> (\<exists>n. respond k = PageStatus n)"
  shows "compute_single_game_records L cfg (Pages respond)
       = scan_events L cfg RecordsData_default
           (concat (map (\<lambda>p. filter has_data (pages p)) [1..<k]))"
proof -
  define j where "j = k - 1"
  have k: "k = 1 + j" using assms(1) by (simp add: j_def)
  have a: "\<forall>p. 1 \<le> p \<and> p < 1 + j \<longrightarrow>
             respond p = PageData (JList (pages p)) \<and> pages p \<noteq> []
             \<and> list_all is_dict (pages p)" using assms(3) k by simp
  have b: "respond (1 + j) = PageError \<or> (\<exists>n. respond (1 + j) = PageStatus n)"
    using assms(4) k by simp
  have c: "j < 50" using assms(2) k by simp
  have "fetch_pages respond 1 50 []
      = [] @ concat (map (\<lambda>p. filter has_data (pages p)) [1..<1 + j])"
    using a b c by (rule fetch_pages_good)
  then show ?thesis by (simp add: compute_single_game_records_def k)
qed

text \<open>
  Claim C9, as the code has it. When the fetch fails before any event has been read (the
  fallback \<^verbatim>\<open>fetch_events\<close> raises, or the request for the first page raises or
  answers with a status other than 200), \<^verbatim>\<open>compute_single_game_records\<close> returns the
  default \<^verbatim>\<open>RecordsData()\<close>, every record unset. When the request for a later page
  \<open>k \<le> 50\<close> fails after each of the pages before it returned a non-empty list of event
  dictionaries, pagination stops and the result is the scan of the events with
  performance or boxscore data of the pages before \<open>k\<close>. In the scan of the fetched
  events, an event whose extraction raises is skipped: the scan gives what it gives on the
  list without that event.
\<close>

theorem records_scan_on_fetch_failure_and_bad_event:
  "compute_single_game_records L cfg (Fallback (Inl e)) = RecordsData_default
   \<and> (respond 1 = PageError \<or> (\<exists>n. respond 1 = PageStatus n)
        \<longrightarrow> compute_single_game_records L cfg (Pages respond) = RecordsData_default)
   \<and> (1 \<le> k \<and> k \<le> 50
        \<and> (\<forall>p. 1 \<le> p \<and> p < k \<longrightarrow>
               respond p = PageData (JList (pages p)) \<and> pages p \<noteq> []
               \<and> list_all is_dict (pages p))
        \<and> (respond k = PageError \<or> (\<exists>n. respond k = PageStatus n))
        \<longrightarrow> compute_single_game_records L cfg (Pages respond)
              = scan_events L cfg RecordsData_default
                  (concat (map (\<lambda>p. filter has_data (pages p)) [1..<k])))
   \<and> (extract_event L event = Inl err
        \<longrightarrow> scan_events L cfg records (before @ event # after)
              = scan_events L cfg records (before @ after)
          \<and> compute_single_game_records L cfg (Fallback (Inr (before @ event # after)))
              = compute_single_game_records L cfg (Fallback (Inr (before @ after))))
   \<and> (extract_event L event = Inl err
        \<and> fetch_pages respond 1 50 [] = before @ event # after
        \<longrightarrow> compute_single_game_records L cfg (Pages respond)
              = scan_events L cfg RecordsData_default (before @ after))"
proof -
  have a: "compute_single_game_records L cfg (Fallback (Inl e)) = RecordsData_default"
    by (simp add: compute_single_game_records_def)
  have b: "respond 1 = PageError \<or> (\<exists>n. respond 1 = PageStatus n)
        \<longrightarrow> compute_single_game_records L cfg (Pages respond) = RecordsData_default"
    using fetch_pages_break [of respond 1 50 "[]"]
    by (auto simp: compute_single_game_records_def scan_events_Nil)
  have c: "1 \<le> k \<and> k \<le> 50
        \<and> (\<forall>p. 1 \<le> p \<and> p < k \<longrightarrow>
               respond p = PageData (JList (pages p)) \<and> pages p \<noteq> []
               \<and> list_all is_dict (pages p))
        \<and> (respond k = PageError \<or> (\<exists>n. respond k = PageStatus n))
        \<longrightarrow> compute_single_game_records L cfg (Pages respond)
              = scan_events L cfg RecordsData_default
                  (concat (map (\<lambda>p. filter has_data (pages p)) [1..<k]))"
    using compute_pages_good [of k respond pages L cfg] by blast
  have d: "extract_event L event = Inl err
        \<longrightarrow> scan_events L cfg records (before @ event # after)
              = scan_events L cfg records (before @ after)
          \<and> compute_single_game_records L cfg (Fallback (Inr (before @ event # after)))
              = compute_single_game_records L cfg (Fallback (Inr (before @ after)))"
    using scan_events_skip [of L event err cfg]
    by (simp add: compute_single_game_records_def)
  have f: "extract_event L event = Inl err
        \<and> fetch_pages respond 1 50 [] = before @ event # after
        \<longrightarrow> compute_single_game_records L cfg (Pages respond)
              = scan_events L cfg RecordsData_default (before @ after)"
    using scan_events_skip [of L event err cfg RecordsData_default before after]
    by (simp add: compute_single_game_records_def)
  show ?thesis using a b c d f by blast
qed

theorem records_scan_witness:
  "compute_single_game_records std_lib ex_settings (Pages (\<lambda>page. PageError))
       = RecordsData_default
   \<and> compute_single_game_records std_lib ex_settings (Pages ex_respond_second_fails)
       = scan_events std_lib ex_settings RecordsData_default [JDict ex_event_perf]
   \<and> extract_event std_lib ex_event_malformed = Inl AttributeError
   \<and> compute_single_game_records std_lib ex_settings
         (Fallback (Inr ([] @ ex_event_malformed # [JDict ex_event_perf])))
       = compute_single_game_records std_lib ex_settings
         (Fallback (Inr ([] @ [JDict ex_event_perf])))
   \<and> fetch_pages ex_respond_with_malformed 1 50 []
       = [] @ ex_event_malformed # [JDict ex_event_perf]
   \<and> compute_single_game_records std_lib ex_settings (Pages ex_respond_with_malformed)
       = scan_events std_lib ex_settings RecordsData_default ([] @ [JDict ex_event_perf])"
proof -
  have h: "extract_event std_lib ex_event_malformed = Inl AttributeError"
    by code_simp
  have p1: "(\<lambda>page. PageError) (1::nat) = PageError
           \<or> (\<exists>n. (\<lambda>page. PageError) (1::nat) = PageStatus n)" by simp
  have g: "\<forall>p. 1 \<le> p \<and> p < (2::nat) \<longrightarrow>
             ex_respond_second_fails p = PageData (JList [JDict ex_event_perf])
             \<and> [JDict ex_event_perf] \<noteq> []
             \<and> list_all is_dict [JDict ex_event_perf]"
    by (auto simp: ex_respond_second_fails_def is_dict_def)
  have k1: "1 \<le> (2::nat)" and k2: "(2::nat) \<le> 50" by simp_all
  have fl: "ex_respond_second_fails 2 = PageError
            \<or> (\<exists>n. ex_respond_second_fails 2 = PageStatus n)"
    by (simp add: ex_respond_second_fails_def)
  have hd: "has_data (JDict ex_event_perf)" by code_simp
  have u: "[1..<2::nat] = [1]" by (simp add: upt_conv_Cons)
  have fp: "fetch_pages ex_respond_with_malformed 1 50 []
       = [] @ ex_event_malformed # [JDict ex_event_perf]" by code_simp
  have w1: "compute_single_game_records std_lib ex_settings (Pages (\<lambda>page. PageError))
       = RecordsData_default"
    using records_scan_on_fetch_failure_and_bad_event
            [of std_lib ex_settings FetchError "\<lambda>page. PageError"] p1 by blast
  have cc: "concat (map (\<lambda>p. filter has_data [JDict ex_event_perf]) [1..<2::nat])
      = [JDict ex_event_perf]"
    using hd u by simp
  have w2: "compute_single_game_records std_lib ex_settings (Pages ex_respond_second_fails)
       = scan_events std_lib ex_settings RecordsData_default
           (concat (map (\<lambda>p. filter has_data [JDict ex_event_perf]) [1..<2]))"
    using conjunct1 [OF conjunct2 [OF conjunct2
            [OF records_scan_on_fetch_failure_and_bad_event
              [of std_lib ex_settings FetchError ex_respond_second_fails 2
                  "\<lambda>p. [JDict ex_event_perf]"]]]] k1 k2 g fl
    by blast
  have w3: "compute_single_game_records std_lib ex_settings
         (Fallback (Inr ([] @ ex_event_malformed # [JDict ex_event_perf])))
       = compute_single_game_records std_lib ex_settings
         (Fallback (Inr ([] @ [JDict ex_event_perf])))
   \<and> compute_single_game_records std_lib ex_settings (Pages ex_respond_with_malformed)
       = scan_events std_lib ex_settings RecordsData_default ([] @ [JDict ex_event_perf])"
    using records_scan_on_fetch_failure_and_bad_event
            [of std_lib ex_settings FetchError ex_respond_with_malformed 1 "\<lambda>p. []"
                ex_event_malformed AttributeError RecordsData_default "[]"
                "[JDict ex_event_perf]"] h fp by blast
  show ?thesis using w1 w2 w3 h fp unfolding cc by simp
qed

text \<open>
  Claim C9 as stated fails on the page loop. When the first page returns one good event
  and the request for the second page raises, the result is not the unset
  \<^verbatim>\<open>RecordsData()\<close>: the points record of the first page's event is set. When the first
  page holds an element that is no dictionary before a good event, pagination stops at
  that element and the good event after it is never scanned, while the same list through
  the fallback keeps it.
\<close>

theorem later_page_failure_gives_partial_records:
  "rd_points (compute_single_game_records std_lib ex_settings
                (Pages ex_respond_second_fails))
     = Some (new_record (row_candidate ''points'' (Fin 12) ex_row_perf))
   \<and> compute_single_game_records std_lib ex_settings (Pages ex_respond_null_first)
     = RecordsData_default
   \<and> rd_points (compute_single_game_records std_lib ex_settings
                (Fallback (Inr [JNull, JDict ex_event_perf])))
     = Some (new_record (row_candidate ''points'' (Fin 12) ex_row_perf))"
  by code_simp

end
